theory Spec2Isabelle
  imports Complex_Main "HOL-Library.Product_Lexorder"
begin

section \<open>Numbers, coordinates and the great-circle distance\<close>

text \<open>
  Python floats are modelled as the real numbers they approximate, strings as lists of
  characters with code points below 256, and every exception as a value of the type
  \<open>py_error\<close>.
\<close>

datatype py_error =
    ValueError string
  | ConnectionError string
  | TimeoutError string
  | IndexError
  | KeyError
  | StopIteration
  | OtherError string

text \<open>\<^verbatim>\<open>route_storage.py\<close>: the dataclass \<^verbatim>\<open>RoutePoint\<close>.\<close>

record RoutePoint =
  lat :: real
  lon :: real

text \<open>
  Modelled from the spec: the function \<^verbatim>\<open>haversine\<close> of the third-party package of the
  same name, which is imported by \<^verbatim>\<open>route_calculator.py\<close> and \<^verbatim>\<open>overpass_client.py\<close> and is
  not part of the repository. The spec asks for the standard great-circle (haversine)
  distance in kilometres on a sphere of the mean Earth radius; coordinates are pairs
  (latitude, longitude) in decimal degrees.
\<close>

definition avg_earth_radius_km :: real where
  "avg_earth_radius_km = 6371.0088"

definition radians :: "real \<Rightarrow> real" where
  "radians x = x * pi / 180"

definition haversine :: "real \<times> real \<Rightarrow> real \<times> real \<Rightarrow> real" where
  "haversine point1 point2 =
     (let lat1 = radians (fst point1); lng1 = radians (snd point1);
          lat2 = radians (fst point2); lng2 = radians (snd point2);
          dlat = lat2 - lat1;
          dlng = lng2 - lng1;
          d = (sin (dlat * 0.5))\<^sup>2 + cos lat1 * cos lat2 * (sin (dlng * 0.5))\<^sup>2
      in 2 * avg_earth_radius_km * arcsin (sqrt d))"

text \<open>\<^verbatim>\<open>RouteCalculator.haversine_distance\<close>.\<close>

definition haversine_distance :: "RoutePoint \<Rightarrow> RoutePoint \<Rightarrow> real" where
  "haversine_distance point1 point2 = haversine (lat point1, lon point1) (lat point2, lon point2)"

section \<open>Routes and distances along a route\<close>

text \<open>
  \<^verbatim>\<open>route_storage.py\<close>: the class \<^verbatim>\<open>Route\<close>. Its field \<^verbatim>\<open>rtree\<close> is an index object of the
  third-party package \<^verbatim>\<open>rtree\<close>; the field \<open>rtree\<close> of the record is the one method of
  that object the code calls: \<open>rtree r box\<close> is the sequence of identifiers that
  \<^verbatim>\<open>route.rtree.nearest(box, 1)\<close> yields for the box \<^verbatim>\<open>(lon, lat, lon, lat)\<close>.
\<close>

record Route =
  points :: "RoutePoint list"
  route_id :: string
  rtree :: "real \<times> real \<times> real \<times> real \<Rightarrow> nat list"
  gpx_data :: "string option"
  filename :: "string option"

text \<open>
  \<^verbatim>\<open>RouteCalculator.find_nearest_route_point_index\<close>: \<^verbatim>\<open>next\<close> takes the first identifier
  and raises \<^verbatim>\<open>StopIteration\<close> when there is none.
\<close>

definition find_nearest_route_point_index :: "Route \<Rightarrow> RoutePoint \<Rightarrow> py_error + nat" where
  "find_nearest_route_point_index route poi_point =
     (case rtree route (RoutePoint.lon poi_point, RoutePoint.lat poi_point,
                        RoutePoint.lon poi_point, RoutePoint.lat poi_point) of
        [] \<Rightarrow> Inl StopIteration
      | i # _ \<Rightarrow> Inr i)"

text \<open>Reading \<^verbatim>\<open>points[i]\<close>: an index past the end raises \<^verbatim>\<open>IndexError\<close>.\<close>

definition point_at :: "RoutePoint list \<Rightarrow> nat \<Rightarrow> py_error + RoutePoint" where
  "point_at pts i = (if i < length pts then Inr (pts ! i) else Inl IndexError)"

text \<open>The loop \<^verbatim>\<open>for i in range(index)\<close> of \<^verbatim>\<open>calculate_distance_on_route\<close>.\<close>

fun distance_loop :: "RoutePoint list \<Rightarrow> nat list \<Rightarrow> real \<Rightarrow> py_error + real" where
  "distance_loop pts [] distance = Inr distance"
| "distance_loop pts (i # rest) distance =
     (case point_at pts i of
        Inl e \<Rightarrow> Inl e
      | Inr a \<Rightarrow>
          (case point_at pts (i + 1) of
             Inl e \<Rightarrow> Inl e
           | Inr b \<Rightarrow> distance_loop pts rest (distance + haversine_distance a b)))"

text \<open>\<^verbatim>\<open>RouteCalculator.calculate_distance_on_route\<close>.\<close>

definition calculate_distance_on_route :: "Route \<Rightarrow> RoutePoint \<Rightarrow> py_error + real" where
  "calculate_distance_on_route route point =
     (case find_nearest_route_point_index route point of
        Inl e \<Rightarrow> Inl e
      | Inr index \<Rightarrow> distance_loop (points route) [0..<index] 0)"

text \<open>The length of a route: the sum of the distances between consecutive points.\<close>

fun route_length :: "RoutePoint list \<Rightarrow> real" where
  "route_length (a # b # rest) = haversine_distance a b + route_length (b # rest)"
| "route_length _ = 0"

section \<open>Strings\<close>

text \<open>The parts of Python's \<^verbatim>\<open>str\<close> and \<^verbatim>\<open>re\<close> that the opening-hours heuristic uses.\<close>

definition is_upper :: "char \<Rightarrow> bool" where
  "is_upper c = (65 \<le> (of_char c :: nat) \<and> (of_char c :: nat) \<le> 90)"

definition is_lower_az :: "char \<Rightarrow> bool" where
  "is_lower_az c = (97 \<le> (of_char c :: nat) \<and> (of_char c :: nat) \<le> 122)"

definition is_digit :: "char \<Rightarrow> bool" where
  "is_digit c = (48 \<le> (of_char c :: nat) \<and> (of_char c :: nat) \<le> 57)"

definition digit_val :: "char \<Rightarrow> nat" where
  "digit_val c = of_char c - 48"

text \<open>
  Whitespace as \<^verbatim>\<open>str.isspace\<close> and the pattern \<^verbatim>\<open>\s\<close> see it on code points below 256:
  the space, the controls 9 to 13 and 28 to 31, the next-line control 133 and the
  no-break space 160.
\<close>

definition is_space :: "char \<Rightarrow> bool" where
  "is_space c = ((of_char c :: nat) = 32 \<or> (9 \<le> (of_char c :: nat) \<and> (of_char c :: nat) \<le> 13)
      \<or> (28 \<le> (of_char c :: nat) \<and> (of_char c :: nat) \<le> 31)
      \<or> (of_char c :: nat) = 133 \<or> (of_char c :: nat) = 160)"

text \<open>
  \<^verbatim>\<open>str.lower\<close> on one character: the letters A to Z and, above 127, the capital letters
  192 to 222 (215, the multiplication sign, is no letter) move up by 32.
\<close>

definition lower_char :: "char \<Rightarrow> char" where
  "lower_char c =
     (if is_upper c
        \<or> (192 \<le> (of_char c :: nat) \<and> (of_char c :: nat) \<le> 222 \<and> (of_char c :: nat) \<noteq> 215)
      then char_of ((of_char c :: nat) + 32) else c)"

definition lower :: "string \<Rightarrow> string" where
  "lower s = map lower_char s"

definition strip :: "string \<Rightarrow> string" where
  "strip s = rev (dropWhile is_space (rev (dropWhile is_space s)))"

text \<open>\<^verbatim>\<open>s.startswith(pat)\<close> and \<^verbatim>\<open>pat in s\<close>.\<close>

fun starts_with :: "string \<Rightarrow> string \<Rightarrow> bool" where
  "starts_with [] s = True"
| "starts_with (p # ps) [] = False"
| "starts_with (p # ps) (c # cs) = (p = c \<and> starts_with ps cs)"

fun contains :: "string \<Rightarrow> string \<Rightarrow> bool" where
  "contains pat [] = (pat = [])"
| "contains pat (c # cs) = (starts_with pat (c # cs) \<or> contains pat cs)"

text \<open>\<^verbatim>\<open>s.split(';')\<close>: the pieces between the separators, empty pieces included.\<close>

fun split_on :: "char \<Rightarrow> string \<Rightarrow> string list" where
  "split_on sep [] = [[]]"
| "split_on sep (c # cs) =
     (if c = sep then [] # split_on sep cs
      else (case split_on sep cs of [] \<Rightarrow> [[c]] | piece # pieces \<Rightarrow> (c # piece) # pieces))"

text \<open>
  The pattern
  \<^verbatim>\<open>([a-z]{2})-([a-z]{2})\s+(\d{1,2}):(\d{2})-(\d{1,2}):(\d{2})\<close>
  matched at the start of a string. The six groups are returned: the two day names as
  strings and the four numbers already read by \<^verbatim>\<open>int\<close>. A character class is never
  followed by a character of its own class, so the greedy quantifiers never backtrack
  to a second match.
\<close>

fun two_letters :: "string \<Rightarrow> (string \<times> string) option" where
  "two_letters (a # b # rest) = (if is_lower_az a \<and> is_lower_az b then Some ([a, b], rest) else None)"
| "two_letters _ = None"

fun expect_char :: "char \<Rightarrow> string \<Rightarrow> string option" where
  "expect_char c (x # rest) = (if x = c then Some rest else None)"
| "expect_char c [] = None"

definition spaces1 :: "string \<Rightarrow> string option" where
  "spaces1 s = (case s of [] \<Rightarrow> None | c # rest \<Rightarrow> if is_space c then Some (dropWhile is_space rest) else None)"

fun two_digits :: "string \<Rightarrow> (nat \<times> string) option" where
  "two_digits (a # b # rest) =
     (if is_digit a \<and> is_digit b then Some (10 * digit_val a + digit_val b, rest) else None)"
| "two_digits _ = None"

definition digits12 :: "string \<Rightarrow> (nat \<times> string) option" where
  "digits12 s =
     (case two_digits s of
        Some r \<Rightarrow> Some r
      | None \<Rightarrow> (case s of [] \<Rightarrow> None | a # rest \<Rightarrow> if is_digit a then Some (digit_val a, rest) else None))"

definition time_of_day :: "string \<Rightarrow> ((nat \<times> nat) \<times> string) option" where
  "time_of_day s =
     (case digits12 s of None \<Rightarrow> None
      | Some (h, s1) \<Rightarrow>
     (case expect_char CHR '':'' s1 of None \<Rightarrow> None
      | Some s2 \<Rightarrow>
     (case two_digits s2 of None \<Rightarrow> None
      | Some (m, s3) \<Rightarrow> Some ((h, m), s3))))"

type_synonym hours_match = "string \<times> string \<times> nat \<times> nat \<times> nat \<times> nat"

definition match_here :: "string \<Rightarrow> hours_match option" where
  "match_here s =
     (case two_letters s of None \<Rightarrow> None
      | Some (g1, s1) \<Rightarrow>
     (case expect_char CHR ''-'' s1 of None \<Rightarrow> None
      | Some s2 \<Rightarrow>
     (case two_letters s2 of None \<Rightarrow> None
      | Some (g2, s3) \<Rightarrow>
     (case spaces1 s3 of None \<Rightarrow> None
      | Some s4 \<Rightarrow>
     (case time_of_day s4 of None \<Rightarrow> None
      | Some ((g3, g4), s5) \<Rightarrow>
     (case expect_char CHR ''-'' s5 of None \<Rightarrow> None
      | Some s6 \<Rightarrow>
     (case time_of_day s6 of None \<Rightarrow> None
      | Some ((g5, g6), s7) \<Rightarrow> Some (g1, g2, g3, g4, g5, g6))))))))"

text \<open>\<^verbatim>\<open>re.search\<close>: the leftmost position at which the pattern matches.\<close>

fun re_search :: "string \<Rightarrow> hours_match option" where
  "re_search [] = None"
| "re_search (c # cs) = (case match_here (c # cs) of Some m \<Rightarrow> Some m | None \<Rightarrow> re_search cs)"

section \<open>Opening hours\<close>

text \<open>\<^verbatim>\<open>OverpassClient.is_24_7\<close>.\<close>

definition patterns_24_7 :: "string list" where
  "patterns_24_7 = [''24/7'', ''24/24'', ''always open'', ''mo-su 00:00-24:00'', ''24 hours'', ''24h'']"

definition is_24_7 :: "string option \<Rightarrow> bool" where
  "is_24_7 opening_hours =
     (case opening_hours of
        None \<Rightarrow> False
      | Some s \<Rightarrow> if s = [] then False
                  else list_ex (\<lambda>pattern. contains pattern (lower s)) patterns_24_7)"

text \<open>The dictionary \<^verbatim>\<open>day_patterns\<close>, read with \<^verbatim>\<open>.get(key, 0)\<close>.\<close>

definition day_patterns :: "(string \<times> nat) list" where
  "day_patterns = [(''mo'', 1), (''tu'', 2), (''we'', 3), (''th'', 4), (''fr'', 5), (''sa'', 6), (''su'', 7)]"

definition day_number :: "string \<Rightarrow> nat" where
  "day_number d = (case map_of day_patterns (take 2 d) of Some n \<Rightarrow> n | None \<Rightarrow> 0)"

text \<open>
  The body shared by the two places that evaluate a match: \<open>None\<close> when one of the day
  names is unknown, otherwise the number of days times the hours per day. The hours are
  exact here; the floating-point result of the code can differ from them in the last
  digit (\<^verbatim>\<open>Mo-Fr 00:05-01:05\<close> is 5 hours here and 4.999999999999999 in the code), so
  what depends on the order of two durations is stated below for the duration as a
  parameter.
\<close>

definition match_hours :: "hours_match \<Rightarrow> real option" where
  "match_hours m =
     (case m of (g1, g2, start_hour, start_min, end_hour, end_min) \<Rightarrow>
        let start_day = day_number g1; end_day = day_number g2 in
        if start_day > 0 \<and> end_day > 0 then
          let num_days = (if end_day \<ge> start_day then int end_day - int start_day + 1
                          else (7 - int start_day + 1) + int end_day);
              start_time = real start_hour + real start_min / 60;
              end_time = real end_hour + real end_min / 60;
              hours_per_day = (if end_time < start_time then (24 - start_time) + end_time
                               else end_time - start_time)
          in Some (of_int num_days * hours_per_day)
        else None)"

text \<open>The loop over the semicolon-separated parts.\<close>

fun sum_parts :: "string list \<Rightarrow> real \<Rightarrow> real" where
  "sum_parts [] total_hours = total_hours"
| "sum_parts (part # parts) total_hours =
     (let part' = strip part in
      if part' = [] then sum_parts parts total_hours
      else (case re_search part' of
              None \<Rightarrow> sum_parts parts total_hours
            | Some m \<Rightarrow>
                (case match_hours m of
                   None \<Rightarrow> sum_parts parts total_hours
                 | Some h \<Rightarrow> sum_parts parts (total_hours + h))))"

text \<open>\<^verbatim>\<open>OverpassClient.calculate_opening_hours_duration\<close>.\<close>

definition first_match_hours :: "string \<Rightarrow> real option" where
  "first_match_hours s = (case re_search s of None \<Rightarrow> None | Some m \<Rightarrow> match_hours m)"

definition calculate_opening_hours_duration :: "string option \<Rightarrow> real" where
  "calculate_opening_hours_duration opening_hours =
     (case opening_hours of
        None \<Rightarrow> 0
      | Some s \<Rightarrow>
          if s = [] then 0
          else let opening_hours_lower = strip (lower s) in
            if is_24_7 opening_hours then 168
            else (case first_match_hours opening_hours_lower of
                    Some h \<Rightarrow> h
                  | None \<Rightarrow>
                      let total_hours = sum_parts (split_on CHR '';'' opening_hours_lower) 0
                      in if total_hours > 0 then min total_hours 168 else 0))"

section \<open>Points of interest and the category table\<close>

text \<open>\<^verbatim>\<open>poi.py\<close>: the dataclass \<^verbatim>\<open>POI\<close>. An optional field is \<open>None\<close> when absent.\<close>

record POI =
  lat :: real
  lon :: real
  name :: string
  distance_to_route :: real
  distance_on_route :: real
  poi_type :: string
  opening_hours :: "string option"
  url :: "string option"
  google_maps_link :: string
  price_range :: "string option"
  brand :: "string option"
  operator :: "string option"
  wikipedia :: "string option"
  wikidata :: "string option"

text \<open>
  The table \<^verbatim>\<open>POI_TYPE_CONFIG\<close>, in the order of the source: each category with its
  default name. The Overpass query templates of the table are text sent to the server
  and take no part in any computation modelled here.
\<close>

definition POI_TYPE_CONFIG :: "(string \<times> string) list" where
  "POI_TYPE_CONFIG =
    [(''public_toilets'', ''Unnamed Toilet''),
     (''bakeries'', ''Unnamed Bakery''),
     (''gas_stations'', ''Unnamed Gas Station''),
     (''grocery_stores'', ''Unnamed Grocery Store''),
     (''water_fountains'', ''Unnamed Water Fountain''),
     (''bicycle_shops'', ''Unnamed Bicycle Shop''),
     (''bicycle_vending'', ''Unnamed Bicycle Vending''),
     (''vending_machines'', ''Unnamed Vending Machine''),
     (''camping_hotels'', ''Unnamed Accommodation''),
     (''sport_areas'', ''Unnamed Sport Area'')]"

definition config_keys :: "string list" where
  "config_keys = map fst POI_TYPE_CONFIG"

text \<open>Python's truth value of an optional string: absent and empty are both false.\<close>

definition truthy :: "string option \<Rightarrow> bool" where
  "truthy v = (case v of None \<Rightarrow> False | Some s \<Rightarrow> s \<noteq> [])"

section \<open>Deduplication\<close>

text \<open>The set \<^verbatim>\<open>deduplicate_types\<close> of \<^verbatim>\<open>deduplicate_pois\<close>.\<close>

definition deduplicate_types :: "string list" where
  "deduplicate_types =
     [''public_toilets'', ''grocery_stores'', ''bakeries'', ''water_fountains'',
      ''bicycle_shops'', ''camping_hotels'', ''gas_stations'', ''sport_areas'']"

text \<open>
  Grouping by type: the dictionary \<^verbatim>\<open>pois_by_type\<close> keeps its keys in the order of their
  first insertion, so it is an association list here.
\<close>

fun group_insert :: "POI \<Rightarrow> (string \<times> POI list) list \<Rightarrow> (string \<times> POI list) list" where
  "group_insert p [] = [(poi_type p, [p])]"
| "group_insert p ((t, ps) # groups) =
     (if t = poi_type p then (t, ps @ [p]) # groups else (t, ps) # group_insert p groups)"

definition pois_by_type :: "POI list \<Rightarrow> (string \<times> POI list) list" where
  "pois_by_type pois = foldl (\<lambda>groups p. group_insert p groups) [] pois"

text \<open>
  The per-category settings \<^verbatim>\<open>poi_settings\<close>: an optional dictionary from category to a
  dictionary of numbers.
\<close>

type_synonym poi_settings = "(string \<rightharpoonup> (string \<rightharpoonup> real)) option"

definition dedup_radius :: "poi_settings \<Rightarrow> real \<Rightarrow> string \<Rightarrow> real" where
  "dedup_radius settings deduplication_radius_km t =
     (case settings of
        None \<Rightarrow> deduplication_radius_km
      | Some m \<Rightarrow>
          (case m t of
             None \<Rightarrow> deduplication_radius_km
           | Some d \<Rightarrow>
               (case d ''deduplication_radius_km'' of
                  None \<Rightarrow> deduplication_radius_km
                | Some r \<Rightarrow> r)))"

text \<open>The sort key of the source, a tuple compared lexicographically.\<close>

type_synonym pref_key = "real \<times> real \<times> bool \<times> bool \<times> bool \<times> bool"

definition pref_key :: "POI \<Rightarrow> pref_key" where
  "pref_key p =
     (distance_to_route p,
      - calculate_opening_hours_duration (opening_hours p),
      \<not> (truthy (brand p) \<or> truthy (operator p)),
      \<not> (truthy (wikipedia p) \<or> truthy (wikidata p)),
      \<not> truthy (url p),
      \<not> (name p \<noteq> []))"

text \<open>The inner loop: is the candidate closer than the radius to a POI already kept?\<close>

definition too_close :: "real \<Rightarrow> POI \<Rightarrow> POI list \<Rightarrow> bool" where
  "too_close radius poi kept_pois =
     list_ex (\<lambda>kept_poi. haversine (lat poi, lon poi) (lat kept_poi, lon kept_poi) < radius) kept_pois"

text \<open>The outer loop over the sorted candidates, with the list \<^verbatim>\<open>kept_pois\<close> built so far.\<close>

fun keep_loop :: "real \<Rightarrow> POI list \<Rightarrow> POI list \<Rightarrow> POI list" where
  "keep_loop radius kept_pois [] = kept_pois"
| "keep_loop radius kept_pois (poi # rest) =
     keep_loop radius (if too_close radius poi kept_pois then kept_pois else kept_pois @ [poi]) rest"

definition dedup_group :: "poi_settings \<Rightarrow> real \<Rightarrow> string \<Rightarrow> POI list \<Rightarrow> POI list" where
  "dedup_group settings deduplication_radius_km t type_pois =
     (if t \<in> set deduplicate_types
      then keep_loop (dedup_radius settings deduplication_radius_km t) [] (sort_key pref_key type_pois)
      else type_pois)"

text \<open>\<^verbatim>\<open>OverpassClient.deduplicate_pois\<close>.\<close>

definition deduplicate_pois :: "POI list \<Rightarrow> real \<Rightarrow> poi_settings \<Rightarrow> POI list" where
  "deduplicate_pois pois deduplication_radius_km settings =
     concat (map (\<lambda>(t, type_pois). dedup_group settings deduplication_radius_km t type_pois)
                 (pois_by_type pois))"

text \<open>
  The sort key calls the method \<^verbatim>\<open>self.calculate_opening_hours_duration\<close>. Here the method
  is a parameter: \<open>duration hours\<close> is the number the method returns for the opening
  hours of a POI, whatever it is. \<open>deduplicate_pois_by duration\<close> is \<^verbatim>\<open>deduplicate_pois\<close>
  with that method.
\<close>

definition pref_key_by :: "(string option \<Rightarrow> real) \<Rightarrow> POI \<Rightarrow> pref_key" where
  "pref_key_by duration p =
     (distance_to_route p,
      - duration (opening_hours p),
      \<not> (truthy (brand p) \<or> truthy (operator p)),
      \<not> (truthy (wikipedia p) \<or> truthy (wikidata p)),
      \<not> truthy (url p),
      \<not> (name p \<noteq> []))"

definition dedup_group_by ::
  "(string option \<Rightarrow> real) \<Rightarrow> poi_settings \<Rightarrow> real \<Rightarrow> string \<Rightarrow> POI list \<Rightarrow> POI list" where
  "dedup_group_by duration settings deduplication_radius_km t type_pois =
     (if t \<in> set deduplicate_types
      then keep_loop (dedup_radius settings deduplication_radius_km t) []
             (sort_key (pref_key_by duration) type_pois)
      else type_pois)"

definition deduplicate_pois_by ::
  "(string option \<Rightarrow> real) \<Rightarrow> POI list \<Rightarrow> real \<Rightarrow> poi_settings \<Rightarrow> POI list" where
  "deduplicate_pois_by duration pois deduplication_radius_km settings =
     concat (map (\<lambda>(t, type_pois). dedup_group_by duration settings deduplication_radius_km t type_pois)
                 (pois_by_type pois))"

section \<open>Raw elements and the distance filter\<close>

text \<open>
  One element of the \<^verbatim>\<open>elements\<close> array of a reply: its \<^verbatim>\<open>type\<close>, its own coordinates,
  the coordinates of its \<^verbatim>\<open>center\<close> and its \<^verbatim>\<open>tags\<close>, each of them optional as in the
  JSON (an element without tags has the empty dictionary).
\<close>

record element =
  el_type :: "string option"
  el_lat :: "real option"
  el_lon :: "real option"
  el_center :: "(real option \<times> real option) option"
  el_tags :: "string \<rightharpoonup> string"

text \<open>The coordinates \<^verbatim>\<open>filter_pois\<close> resolves for an element, \<open>None\<close> when it skips it.\<close>

definition own_coordinates :: "element \<Rightarrow> (real \<times> real) option" where
  "own_coordinates e =
     (case (el_lat e, el_lon e) of (Some la, Some lo) \<Rightarrow> Some (la, lo) | _ \<Rightarrow> None)"

definition element_coordinates :: "element \<Rightarrow> (real \<times> real) option" where
  "element_coordinates e =
     (if el_type e = Some ''node'' then own_coordinates e
      else if el_type e = Some ''way'' then
        (case el_center e of
           Some c \<Rightarrow> (case c of (Some la, Some lo) \<Rightarrow> Some (la, lo) | _ \<Rightarrow> None)
         | None \<Rightarrow> own_coordinates e)
      else None)"

text \<open>\<^verbatim>\<open>a or b\<close> on optional strings.\<close>

definition py_or :: "string option \<Rightarrow> string option \<Rightarrow> string option" where
  "py_or a b = (if truthy a then a else b)"

text \<open>
  Two pieces of \<^verbatim>\<open>filter_pois\<close> only fill display fields of a POI and are parameters
  here: the text of a float in the map link, and \<^verbatim>\<open>extract_price_range\<close>, which reads a
  price description off the tags of an accommodation.
\<close>

record display =
  float_text :: "real \<Rightarrow> string"
  extract_price_range :: "(string \<rightharpoonup> string) \<Rightarrow> string option"

definition default_name_of :: "string \<Rightarrow> string option" where
  "default_name_of t = map_of POI_TYPE_CONFIG t"

definition make_poi ::
  "display \<Rightarrow> string \<Rightarrow> string \<Rightarrow> element \<Rightarrow> real \<Rightarrow> real \<Rightarrow> real \<Rightarrow> real \<Rightarrow> POI" where
  "make_poi dsp t default_name e la lo distance_to_route_km distance_along_route =
     (let tgs = el_tags e; nm = tgs ''name'' in
      \<lparr>lat = la, lon = lo,
       name = (case nm of None \<Rightarrow> default_name | Some n \<Rightarrow> if n \<noteq> [] then n else default_name),
       distance_to_route = distance_to_route_km,
       distance_on_route = distance_along_route,
       poi_type = t,
       opening_hours = tgs ''opening_hours'',
       url = py_or (tgs ''website'') (tgs ''url''),
       google_maps_link = ''https://www.google.com/maps?q='' @ float_text dsp la @ '','' @ float_text dsp lo,
       price_range = (if t = ''camping_hotels'' then extract_price_range dsp tgs else None),
       brand = tgs ''brand'',
       operator = tgs ''operator'',
       wikipedia = tgs ''wikipedia'',
       wikidata = tgs ''wikidata''\<rparr>)"

text \<open>
  The body of the \<^verbatim>\<open>try\<close> for one element with coordinates: the POI it appends, if any.
\<close>

definition element_poi ::
  "display \<Rightarrow> Route \<Rightarrow> string \<Rightarrow> string \<Rightarrow> real \<Rightarrow> element \<Rightarrow> real \<Rightarrow> real \<Rightarrow> py_error + POI option" where
  "element_poi dsp route t default_name max_distance_to_route_km e la lo =
     (let poi_point = \<lparr>RoutePoint.lat = la, RoutePoint.lon = lo\<rparr> in
      case find_nearest_route_point_index route poi_point of
        Inl err \<Rightarrow> Inl err
      | Inr nearest_point_on_route_index \<Rightarrow>
     (case point_at (points route) nearest_point_on_route_index of
        Inl err \<Rightarrow> Inl err
      | Inr nearest_route_point \<Rightarrow>
          let distance_to_route_km = haversine_distance poi_point nearest_route_point in
          if distance_to_route_km \<le> max_distance_to_route_km then
            (case calculate_distance_on_route route nearest_route_point of
               Inl err \<Rightarrow> Inl err
             | Inr distance_along_route \<Rightarrow>
                 Inr (Some (make_poi dsp t default_name e la lo distance_to_route_km distance_along_route)))
          else Inr None))"

text \<open>The clause \<^verbatim>\<open>except (KeyError, IndexError, ValueError)\<close>.\<close>

fun caught_by_filter :: "py_error \<Rightarrow> bool" where
  "caught_by_filter KeyError = True"
| "caught_by_filter IndexError = True"
| "caught_by_filter (ValueError _) = True"
| "caught_by_filter _ = False"

text \<open>The loop over the elements, with the list \<^verbatim>\<open>filtered_pois\<close> built so far.\<close>

fun filter_loop ::
  "display \<Rightarrow> Route \<Rightarrow> string \<Rightarrow> string \<Rightarrow> real \<Rightarrow> element list \<Rightarrow> POI list \<Rightarrow> py_error + POI list" where
  "filter_loop dsp route t default_name max_km [] filtered_pois = Inr filtered_pois"
| "filter_loop dsp route t default_name max_km (e # rest) filtered_pois =
     (case element_coordinates e of
        None \<Rightarrow> filter_loop dsp route t default_name max_km rest filtered_pois
      | Some (la, lo) \<Rightarrow>
          (case element_poi dsp route t default_name max_km e la lo of
             Inl err \<Rightarrow>
               if caught_by_filter err then filter_loop dsp route t default_name max_km rest filtered_pois
               else Inl err
           | Inr None \<Rightarrow> filter_loop dsp route t default_name max_km rest filtered_pois
           | Inr (Some poi) \<Rightarrow>
               filter_loop dsp route t default_name max_km rest (filtered_pois @ [poi])))"

text \<open>\<^verbatim>\<open>OverpassClient.filter_pois\<close>; the reply is given by its \<^verbatim>\<open>elements\<close>.\<close>

definition filter_pois :: "display \<Rightarrow> Route \<Rightarrow> element list \<Rightarrow> string \<Rightarrow> real \<Rightarrow> py_error + POI list" where
  "filter_pois dsp route elements t max_distance_to_route_km =
     (case default_name_of t of
        None \<Rightarrow> Inl (ValueError ''Unknown POI type'')
      | Some default_name \<Rightarrow>
          (case filter_loop dsp route t default_name max_distance_to_route_km elements [] of
             Inl err \<Rightarrow> Inl err
           | Inr filtered_pois \<Rightarrow> Inr (sort_key distance_on_route filtered_pois)))"

section \<open>Querying the remote endpoints\<close>

text \<open>
  The bounding box of a query, and what the code does to the outside world: the requests
  it posts, the pauses it takes and the callbacks it calls, in the order of their
  occurrence.
\<close>

record bbox =
  south :: real
  north :: real
  west :: real
  east :: real

datatype event =
    Post string string bbox nat
  | Sleep real
  | Progress string nat nat
  | Batch string "POI list"

text \<open>
  What \<^verbatim>\<open>requests.post\<close>, \<^verbatim>\<open>raise_for_status\<close> and \<^verbatim>\<open>response.json\<close> can do with one request:
  a reply with its status code and its body (\<open>None\<close> when the body is not JSON), one of
  the exception classes of \<^verbatim>\<open>requests\<close> that the code tells apart, or any other exception.
  The outside world is a function from the events so far and the request to the outcome.
\<close>

datatype outcome =
    Response nat "element list option"
  | Timeout
  | ConnectionFailure
  | RequestFailure
  | OtherException string

type_synonym network = "event list \<Rightarrow> event \<Rightarrow> outcome"

text \<open>
  The \<^verbatim>\<open>except\<close> clauses of \<^verbatim>\<open>query_poi_type\<close>: what one attempt leads to. An error that is
  retried comes with the pause before the next attempt. The messages are the fixed parts
  of the source's messages.
\<close>

datatype verdict =
    Success "element list"
  | Retry py_error real
  | Next_endpoint py_error
  | Propagate py_error

definition classify :: "nat \<Rightarrow> outcome \<Rightarrow> verdict" where
  "classify attempt out =
     (case out of
        Timeout \<Rightarrow> Retry (TimeoutError ''Overpass API request timed out'') (2 ^ attempt)
      | Response status_code body \<Rightarrow>
          if 400 \<le> status_code \<and> status_code < 600 then
            (if status_code = 429 then Retry (ConnectionError ''Overpass API rate limit exceeded.'') 5
             else if status_code = 400 then Next_endpoint (ValueError ''Bad request to Overpass API'')
             else if status_code \<ge> 500 \<and> status_code < 600
               then Retry (ConnectionError ''Overpass API server error'') (2 ^ attempt)
             else Next_endpoint (ConnectionError ''Overpass API HTTP error''))
          else (case body of
                  Some data \<Rightarrow> Success data
                | None \<Rightarrow> Next_endpoint (ValueError ''Invalid JSON response from Overpass API''))
      | ConnectionFailure \<Rightarrow> Retry (ConnectionError ''Overpass API connection error'') (2 ^ attempt)
      | RequestFailure \<Rightarrow> Retry (ConnectionError ''Overpass API request failed'') (2 ^ attempt)
      | OtherException msg \<Rightarrow> Propagate (OtherError msg))"

text \<open>
  The inner loop \<^verbatim>\<open>for attempt in range(max_retries)\<close> on one endpoint, from the list of
  the attempts still to make. It ends by returning the data, by an exception that no
  clause catches, or by leaving the endpoint with the value of \<^verbatim>\<open>last_error\<close>.
\<close>

datatype attempt_result =
    Returned "element list"
  | Raised py_error
  | Exhausted "py_error option"

fun try_attempts ::
  "network \<Rightarrow> (nat \<Rightarrow> event) \<Rightarrow> nat \<Rightarrow> nat list \<Rightarrow> py_error option \<Rightarrow> event list
     \<Rightarrow> event list \<times> attempt_result" where
  "try_attempts net post max_retries [] last_error trace = (trace, Exhausted last_error)"
| "try_attempts net post max_retries (attempt # later) last_error trace =
     (let timeout = 45 + attempt * 15;
          request = post timeout;
          trace1 = trace @ [request]
      in case classify attempt (net trace request) of
           Success data \<Rightarrow> (trace1, Returned data)
         | Propagate e \<Rightarrow> (trace1, Raised e)
         | Next_endpoint e \<Rightarrow> (trace1, Exhausted (Some e))
         | Retry e wait_time \<Rightarrow>
             if int attempt < int max_retries - 1
             then try_attempts net post max_retries later (Some e) (trace1 @ [Sleep wait_time])
             else (trace1, Exhausted (Some e)))"

text \<open>The outer loop \<^verbatim>\<open>for overpass_url in self.overpass_urls\<close> and the final \<^verbatim>\<open>raise\<close>.\<close>

fun url_loop ::
  "network \<Rightarrow> (string \<Rightarrow> nat \<Rightarrow> event) \<Rightarrow> nat \<Rightarrow> string list \<Rightarrow> py_error option \<Rightarrow> event list
     \<Rightarrow> event list \<times> (py_error + element list)" where
  "url_loop net post max_retries [] last_error trace =
     (trace, Inl (case last_error of
                    Some e \<Rightarrow> e
                  | None \<Rightarrow> ConnectionError ''Failed to query Overpass API after all retry attempts.''))"
| "url_loop net post max_retries (overpass_url # urls) last_error trace =
     (case try_attempts net (post overpass_url) max_retries [0..<max_retries] last_error trace of
        (trace', Returned data) \<Rightarrow> (trace', Inr data)
      | (trace', Raised e) \<Rightarrow> (trace', Inl e)
      | (trace', Exhausted last_error') \<Rightarrow> url_loop net post max_retries urls last_error' trace')"

text \<open>The class \<^verbatim>\<open>OverpassClient\<close> and its constructor.\<close>

record OverpassClient =
  overpass_urls :: "string list"
  route :: Route

definition init_client :: "Route \<Rightarrow> OverpassClient" where
  "init_client r =
     \<lparr>overpass_urls =
        [''https://overpass-api.de/api/interpreter'',
         ''http://overpass-api.de/api/interpreter'',
         ''https://overpass.kumi.systems/api/interpreter''],
      route = r\<rparr>"

text \<open>\<^verbatim>\<open>OverpassClient.query_poi_type\<close>, started after the events of \<open>trace\<close>.\<close>

definition query_poi_type ::
  "OverpassClient \<Rightarrow> network \<Rightarrow> bbox \<Rightarrow> string \<Rightarrow> nat \<Rightarrow> event list
     \<Rightarrow> event list \<times> (py_error + element list)" where
  "query_poi_type self net box t max_retries trace =
     (if t \<notin> set config_keys then (trace, Inl (ValueError ''Unknown POI type''))
      else url_loop net (\<lambda>overpass_url timeout. Post overpass_url t box timeout)
             max_retries (overpass_urls self) None trace)"

section \<open>All categories in sequence\<close>

text \<open>The arguments of \<^verbatim>\<open>query_all_poi_types\<close>; a callback is given by whether it is there.\<close>

record query_args =
  arg_bbox :: bbox
  delay_seconds :: real
  max_distance_to_route_km :: real
  selected_poi_types :: "string list option"
  progress_callback :: bool
  batch_callback :: bool
  deduplication_radius_km :: real
  arg_poi_settings :: poi_settings

definition max_deviation :: "poi_settings \<Rightarrow> real \<Rightarrow> string \<Rightarrow> real" where
  "max_deviation settings max_km t =
     (case settings of
        None \<Rightarrow> max_km
      | Some m \<Rightarrow>
          (case m t of
             None \<Rightarrow> max_km
           | Some d \<Rightarrow> (case d ''max_deviation_km'' of None \<Rightarrow> max_km | Some r \<Rightarrow> r)))"

text \<open>
  The body of the \<^verbatim>\<open>try\<close> for one category: the events it adds and either the exception
  that ends it or the deduplicated POIs it appends to \<^verbatim>\<open>all_pois\<close>.
\<close>

definition category_step ::
  "OverpassClient \<Rightarrow> network \<Rightarrow> display \<Rightarrow> query_args \<Rightarrow> string list \<Rightarrow> nat \<Rightarrow> string \<Rightarrow> event list
     \<Rightarrow> event list \<times> (py_error + POI list)" where
  "category_step self net dsp args poi_types index t trace =
     (let trace1 = trace @ (if progress_callback args then [Progress t index (length poi_types)] else []);
          poi_max_distance = max_deviation (arg_poi_settings args) (max_distance_to_route_km args) t
      in case query_poi_type self net (arg_bbox args) t 3 trace1 of
           (trace2, Inl e) \<Rightarrow> (trace2, Inl e)
         | (trace2, Inr overpass_data) \<Rightarrow>
             (case filter_pois dsp (route self) overpass_data t poi_max_distance of
                Inl e \<Rightarrow> (trace2, Inl e)
              | Inr filtered_pois \<Rightarrow>
                  let deduplicated_pois =
                        deduplicate_pois filtered_pois (deduplication_radius_km args) (arg_poi_settings args)
                  in (trace2
                        @ (if batch_callback args then [Batch t deduplicated_pois] else [])
                        @ (if t \<noteq> last poi_types then [Sleep (delay_seconds args)] else []),
                      Inr deduplicated_pois)))"

text \<open>The loop over \<^verbatim>\<open>enumerate(poi_types, start=1)\<close>; an exception skips the category.\<close>

fun category_loop ::
  "OverpassClient \<Rightarrow> network \<Rightarrow> display \<Rightarrow> query_args \<Rightarrow> string list \<Rightarrow> (nat \<times> string) list
     \<Rightarrow> POI list \<Rightarrow> event list \<Rightarrow> event list \<times> POI list" where
  "category_loop self net dsp args poi_types [] all_pois trace = (trace, all_pois)"
| "category_loop self net dsp args poi_types ((index, t) # rest) all_pois trace =
     (case category_step self net dsp args poi_types index t trace of
        (trace', Inl e) \<Rightarrow> category_loop self net dsp args poi_types rest all_pois trace'
      | (trace', Inr deduplicated_pois) \<Rightarrow>
          category_loop self net dsp args poi_types rest (all_pois @ deduplicated_pois) trace')"

definition enumerate1 :: "'a list \<Rightarrow> (nat \<times> 'a) list" where
  "enumerate1 xs = zip [1..<Suc (length xs)] xs"

text \<open>\<^verbatim>\<open>OverpassClient.query_all_poi_types\<close>: the events it causes and what it returns.\<close>

definition invalid_types :: "string list \<Rightarrow> string list" where
  "invalid_types sel = filter (\<lambda>t. t \<notin> set config_keys) sel"

definition query_all_poi_types ::
  "OverpassClient \<Rightarrow> network \<Rightarrow> display \<Rightarrow> query_args \<Rightarrow> event list \<times> (py_error + POI list)" where
  "query_all_poi_types self net dsp args =
     (let sel = (case selected_poi_types args of None \<Rightarrow> [] | Some ts \<Rightarrow> ts) in
      if sel \<noteq> [] \<and> invalid_types sel \<noteq> [] then ([], Inl (ValueError ''Unknown POI types''))
      else
        let poi_types = (if sel \<noteq> [] then sel else config_keys) in
        case category_loop self net dsp args poi_types (enumerate1 poi_types) [] [] of
          (trace, all_pois) \<Rightarrow> (trace, Inr (sort_key distance_on_route all_pois)))"

section \<open>The properties as the specification words them\<close>

text \<open>
  The preference between two candidates as the specification states it: closer to the
  route; on a tie, longer weekly opening hours; then a brand or operator; then a
  Wikipedia or Wikidata reference; then a URL; then a name.
\<close>

definition has_brand :: "POI \<Rightarrow> bool" where
  "has_brand p = (truthy (brand p) \<or> truthy (operator p))"

definition has_reference :: "POI \<Rightarrow> bool" where
  "has_reference p = (truthy (wikipedia p) \<or> truthy (wikidata p))"

definition has_url :: "POI \<Rightarrow> bool" where
  "has_url p = truthy (url p)"

definition has_name :: "POI \<Rightarrow> bool" where
  "has_name p = (name p \<noteq> [])"

definition weekly_hours :: "POI \<Rightarrow> real" where
  "weekly_hours p = calculate_opening_hours_duration (opening_hours p)"

definition spec_prefers :: "POI \<Rightarrow> POI \<Rightarrow> bool" where
  "spec_prefers a b =
     (distance_to_route a < distance_to_route b \<or>
      distance_to_route a = distance_to_route b \<and>
      (weekly_hours a > weekly_hours b \<or>
       weekly_hours a = weekly_hours b \<and>
       (has_brand a \<and> \<not> has_brand b \<or>
        has_brand a = has_brand b \<and>
        (has_reference a \<and> \<not> has_reference b \<or>
         has_reference a = has_reference b \<and>
         (has_url a \<and> \<not> has_url b \<or>
          has_url a = has_url b \<and> has_name a \<and> \<not> has_name b)))))"

text \<open>
  The preference of the specification between two candidates, with the weekly hours that
  the method computes for them.
\<close>

definition spec_prefers_by :: "(string option \<Rightarrow> real) \<Rightarrow> POI \<Rightarrow> POI \<Rightarrow> bool" where
  "spec_prefers_by duration a b =
     (distance_to_route a < distance_to_route b \<or>
      distance_to_route a = distance_to_route b \<and>
      (duration (opening_hours a) > duration (opening_hours b) \<or>
       duration (opening_hours a) = duration (opening_hours b) \<and>
       (has_brand a \<and> \<not> has_brand b \<or>
        has_brand a = has_brand b \<and>
        (has_reference a \<and> \<not> has_reference b \<or>
         has_reference a = has_reference b \<and>
         (has_url a \<and> \<not> has_url b \<or>
          has_url a = has_url b \<and> has_name a \<and> \<not> has_name b)))))"

text \<open>Two POIs are apart when their great-circle distance is not less than the radius.\<close>

definition apart :: "real \<Rightarrow> POI \<Rightarrow> POI \<Rightarrow> bool" where
  "apart r x y = (r \<le> haversine (lat x, lon x) (lat y, lon y))"

text \<open>Example POIs: a POI with the given position, name, distance to the route, type and hours.\<close>

definition example_poi :: "real \<Rightarrow> real \<Rightarrow> string \<Rightarrow> real \<Rightarrow> string \<Rightarrow> string option \<Rightarrow> POI" where
  "example_poi la lo n d t hours =
     \<lparr>lat = la, lon = lo, name = n, distance_to_route = d, distance_on_route = 0, poi_type = t,
      opening_hours = hours, url = None, google_maps_link = [], price_range = None,
      brand = None, operator = None, wikipedia = None, wikidata = None\<rparr>"

definition toilet_always :: POI where
  "toilet_always = example_poi 0 0 ''Toilet 1'' 0.1 ''public_toilets'' (Some ''24/7'')"

definition toilet_weekdays :: POI where
  "toilet_weekdays = example_poi 0.001 0 ''Toilet 2'' 0.1 ''public_toilets'' (Some ''Mo-Fr 09:00-17:00'')"

definition toilet_far :: POI where
  "toilet_far = example_poi 1 0 ''Toilet 3'' 0.2 ''public_toilets'' None"

definition bakery_near :: POI where
  "bakery_near = example_poi 0.001 0 ''Bakery'' 0.15 ''bakeries'' None"

definition vending_a :: POI where
  "vending_a = example_poi 0 0 ''Drinks 1'' 0.2 ''vending_machines'' None"

definition vending_b :: POI where
  "vending_b = example_poi 0.001 0 ''Drinks 2'' 0.1 ''vending_machines'' None"

text \<open>
  Modelled from the spec: the nearest-neighbour query of the index that
  \<^verbatim>\<open>RouteStorage.store\<close> fills with the position of every point of the route. The spec asks
  for the index of the route point geometrically nearest to the query point, with any
  one of them on a tie; distances are taken between the coordinate pairs, as the index
  stores them, and the first nearest point is returned.
\<close>

definition sq_dist :: "real \<Rightarrow> real \<Rightarrow> RoutePoint \<Rightarrow> real" where
  "sq_dist x y p = (RoutePoint.lon p - x)\<^sup>2 + (RoutePoint.lat p - y)\<^sup>2"

fun best :: "nat \<times> real \<Rightarrow> (nat \<times> real) list \<Rightarrow> nat" where
  "best (i, d) [] = i"
| "best (i, d) ((j, e) # rest) = (if e < d then best (j, e) rest else best (i, d) rest)"

definition linear_index :: "RoutePoint list \<Rightarrow> real \<times> real \<times> real \<times> real \<Rightarrow> nat list" where
  "linear_index pts box =
     (case box of (x, y, _, _) \<Rightarrow>
        (case zip [0..<length pts] (map (sq_dist x y) pts) of
           [] \<Rightarrow> []
         | c # cs \<Rightarrow> [best c cs]))"

text \<open>The route that \<^verbatim>\<open>RouteStorage.store\<close> registers for a list of points.\<close>

definition stored_route :: "RoutePoint list \<Rightarrow> Route" where
  "stored_route pts =
     \<lparr>points = pts, route_id = ''route'', rtree = linear_index pts, gpx_data = None, filename = None\<rparr>"

text \<open>The three-point route of the unit tests.\<close>

definition example_route :: Route where
  "example_route = stored_route
     [\<lparr>RoutePoint.lat = 0, lon = 0\<rparr>, \<lparr>RoutePoint.lat = 0, lon = 1\<rparr>, \<lparr>RoutePoint.lat = 1, lon = 1\<rparr>]"



text \<open>Two raw elements near the example route: an unnamed one close to it and a named one far away.\<close>

definition no_display :: display where
  "no_display = \<lparr>float_text = (\<lambda>x. ''''), extract_price_range = (\<lambda>tags. None)\<rparr>"

definition fuel_near :: element where
  "fuel_near = \<lparr>el_type = Some ''node'', el_lat = Some (1 / 1000), el_lon = Some 0,
                 el_center = None, el_tags = Map.empty\<rparr>"

definition fuel_far :: element where
  "fuel_far = \<lparr>el_type = Some ''node'', el_lat = Some 2, el_lon = Some 1,
                el_center = None, el_tags = [''name'' \<mapsto> ''Far Fuel'']\<rparr>"

text \<open>The POI that \<^verbatim>\<open>filter_pois\<close> makes of the element close to the route.\<close>

definition fuel_poi :: POI where
  "fuel_poi = make_poi no_display ''gas_stations'' ''Unnamed Gas Station'' fuel_near (1 / 1000) 0
     (haversine_distance \<lparr>RoutePoint.lat = (1 / 1000), lon = 0\<rparr> \<lparr>RoutePoint.lat = 0, lon = 0\<rparr>) 0"

text \<open>
  The words of the specification about one reply: a permanent failure is a bad request
  or a reply whose body does not parse; a success is a reply without an error status
  whose body is the data. The error of an outcome is the error the code classifies it as.
\<close>

definition is_permanent :: "outcome \<Rightarrow> bool" where
  "is_permanent out =
     (case out of
        Response status_code body \<Rightarrow>
          status_code = 400 \<or> (\<not> (400 \<le> status_code \<and> status_code < 600) \<and> body = None)
      | _ \<Rightarrow> False)"

definition is_success :: "element list \<Rightarrow> outcome \<Rightarrow> bool" where
  "is_success data out =
     (case out of
        Response status_code body \<Rightarrow> \<not> (400 \<le> status_code \<and> status_code < 600) \<and> body = Some data
      | _ \<Rightarrow> False)"

definition error_of :: "nat \<Rightarrow> outcome \<Rightarrow> py_error option" where
  "error_of attempt out =
     (case classify attempt out of
        Success data \<Rightarrow> None
      | Retry e wait_time \<Rightarrow> Some e
      | Next_endpoint e \<Rightarrow> Some e
      | Propagate e \<Rightarrow> Some e)"

definition final_result :: "verdict \<Rightarrow> attempt_result" where
  "final_result v =
     (case v of
        Success data \<Rightarrow> Returned data
      | Retry e wait_time \<Rightarrow> Exhausted (Some e)
      | Next_endpoint e \<Rightarrow> Exhausted (Some e)
      | Propagate e \<Rightarrow> Raised e)"

text \<open>What the inner loop and the call end with after a last attempt of the given verdict.\<close>

definition call_result :: "verdict \<Rightarrow> py_error + element list" where
  "call_result v =
     (case v of
        Success data \<Rightarrow> Inr data
      | Retry e wait_time \<Rightarrow> Inl e
      | Next_endpoint e \<Rightarrow> Inl e
      | Propagate e \<Rightarrow> Inl e)"

text \<open>Example networks: one that always answers with a rate limit, and one that rejects
  the first request as a bad request and answers every later one with an empty result.\<close>

definition example_box :: bbox where
  "example_box = \<lparr>south = 0, north = 1, west = 0, east = 1\<rparr>"

definition example_client :: OverpassClient where
  "example_client = init_client example_route"

definition net_rate_limited :: network where
  "net_rate_limited = (\<lambda>h r. Response 429 None)"

definition net_bad_then_ok :: network where
  "net_bad_then_ok = (\<lambda>h r. if h = [] then Response 400 None else Response 200 (Some []))"

text \<open>The request the code posts for the gas stations of the example box.\<close>

definition gas_post :: "string \<Rightarrow> nat \<Rightarrow> event" where
  "gas_post = (\<lambda>overpass_url timeout. Post overpass_url ''gas_stations'' example_box timeout)"

text \<open>
  The categories a call works on, and the outcome of every one of them in the order of
  the run: the exception that made the code skip it, or its deduplicated POIs.
\<close>

definition resolved_types :: "query_args \<Rightarrow> string list" where
  "resolved_types args =
     (case selected_poi_types args of
        None \<Rightarrow> config_keys
      | Some ts \<Rightarrow> if ts \<noteq> [] then ts else config_keys)"

fun category_results ::
  "OverpassClient \<Rightarrow> network \<Rightarrow> display \<Rightarrow> query_args \<Rightarrow> string list \<Rightarrow> (nat \<times> string) list
     \<Rightarrow> event list \<Rightarrow> (py_error + POI list) list" where
  "category_results self net dsp args poi_types [] trace = []"
| "category_results self net dsp args poi_types ((index, t) # rest) trace =
     (case category_step self net dsp args poi_types index t trace of
        (trace', r) \<Rightarrow> r # category_results self net dsp args poi_types rest trace')"

text \<open>The POIs a category contributes: none when it was skipped.\<close>

fun pois_of :: "py_error + POI list \<Rightarrow> POI list" where
  "pois_of (Inl e) = []"
| "pois_of (Inr pois) = pois"

text \<open>
  An example call: bakeries and gas stations are asked for, every endpoint rejects the
  query for bakeries, and the query for gas stations is answered with the two elements
  of the example. A second call asks for a category that does not exist.
\<close>

definition net_bakeries_down :: network where
  "net_bakeries_down =
     (\<lambda>h r. case r of
              Post overpass_url t box timeout \<Rightarrow>
                if t = ''bakeries'' then Response 400 None
                else Response 200 (Some [fuel_near, fuel_far])
            | _ \<Rightarrow> Timeout)"

definition example_args :: query_args where
  "example_args =
     \<lparr>arg_bbox = example_box, delay_seconds = 3 / 4, max_distance_to_route_km = 1,
      selected_poi_types = Some [''bakeries'', ''gas_stations''],
      progress_callback = True, batch_callback = True,
      deduplication_radius_km = 1, arg_poi_settings = None\<rparr>"

definition castle_args :: query_args where
  "castle_args = example_args\<lparr>selected_poi_types := Some [''gas_stations'', ''castles'']\<rparr>"

definition bike_a :: POI where
  "bike_a = example_poi 0 0 ''Tubes 1'' 0.1 ''bicycle_vending'' (Some ''24/7'')"

definition bike_b :: POI where
  "bike_b = example_poi 0.001 0 ''Tubes 2'' 0.2 ''bicycle_vending'' None"

section \<open>Properties of the great-circle distance\<close>

lemma sin_half_diff_sq: "(sin ((a - b) * 0.5))\<^sup>2 = (sin ((b - a) * 0.5 :: real))\<^sup>2"
proof -
  have "(a - b) * 0.5 = - ((b - a) * 0.5)" by argo
  then have "sin ((a - b) * 0.5) = - sin ((b - a) * 0.5)"
    by (metis sin_minus)
  then show ?thesis by simp
qed

lemma haversine_sym: "haversine p q = haversine q p"
  unfolding haversine_def Let_def
  by (simp only: sin_half_diff_sq [of "radians (fst p)" "radians (fst q)"]
        sin_half_diff_sq [of "radians (snd p)" "radians (snd q)"] mult.commute [of "cos (radians (fst p))"])

lemma haversine_same: "haversine p p = 0"
  by (simp add: haversine_def)

text \<open>
  Claim C9. The distance of \<^verbatim>\<open>haversine_distance\<close> between a coordinate and itself is 0,
  and the distance is symmetric in its two arguments.
\<close>

theorem haversine_distance_zero_and_symmetric:
  "haversine_distance a a = 0 \<and> haversine_distance a b = haversine_distance b a"
  unfolding haversine_distance_def
  using haversine_same [of "(RoutePoint.lat a, RoutePoint.lon a)"]
    haversine_sym [of "(RoutePoint.lat a, RoutePoint.lon a)" "(RoutePoint.lat b, RoutePoint.lon b)"]
  by simp

text \<open>On one meridian the distance is the arc between the two latitudes.\<close>

lemma haversine_meridian:
  assumes "\<bar>radians la2 - radians la1\<bar> \<le> pi"
  shows "haversine (la1, lo) (la2, lo) = avg_earth_radius_km * \<bar>radians la2 - radians la1\<bar>"
proof -
  define x where "x = \<bar>radians la2 - radians la1\<bar> / 2"
  have x: "0 \<le> x" "x \<le> pi / 2" using assms by (simp_all add: x_def)
  have "(sin ((radians la2 - radians la1) * 0.5))\<^sup>2 = (sin x)\<^sup>2"
  proof (cases "radians la2 - radians la1 \<ge> 0")
    case True
    then have "(radians la2 - radians la1) * 0.5 = x" unfolding x_def by linarith
    then show ?thesis by simp
  next
    case False
    then have "(radians la2 - radians la1) * 0.5 = - x" unfolding x_def by linarith
    then show ?thesis by simp
  qed
  moreover have "0 \<le> sin x" using x by (intro sin_ge_zero) (use pi_ge_zero in linarith)+
  ultimately have "sqrt ((sin ((radians la2 - radians la1) * 0.5))\<^sup>2) = sin x"
    by simp
  moreover have "arcsin (sin x) = x" using x by (intro arcsin_sin) linarith+
  ultimately show ?thesis
    by (simp add: haversine_def x_def)
qed

lemma near_example: "haversine (0, 0) (0.001, 0) < 1"
proof -
  have "haversine (0, 0) (0.001, 0) = avg_earth_radius_km * \<bar>radians 0.001 - radians 0\<bar>"
    by (rule haversine_meridian) (simp add: radians_def)
  also have "\<dots> = 6371.0088 * (0.001 * pi / 180)" by (simp add: avg_earth_radius_km_def radians_def)
  also have "\<dots> < 1" using pi_less_4 by simp
  finally show ?thesis .
qed

lemma far_example: "1 \<le> haversine (0, 0) (1, 0)"
proof -
  have "haversine (0, 0) (1, 0) = avg_earth_radius_km * \<bar>radians 1 - radians 0\<bar>"
    by (rule haversine_meridian) (simp add: radians_def)
  also have "\<dots> = 6371.0088 * (pi / 180)" by (simp add: avg_earth_radius_km_def radians_def)
  finally show ?thesis using pi_ge_two by simp
qed

section \<open>Opening hours: what the heuristic computes\<close>

lemma opening_hours_absent: "calculate_opening_hours_duration None = 0"
  by (simp add: calculate_opening_hours_duration_def)

lemma opening_hours_24_7: "is_24_7 hours \<Longrightarrow> calculate_opening_hours_duration hours = 168"
  by (auto simp: calculate_opening_hours_duration_def is_24_7_def Let_def split: option.splits)

lemma opening_hours_above_week:
  "calculate_opening_hours_duration (Some ''Mo-Su 06:00-30:30'') = 343 / 2"
  by code_simp

lemma opening_hours_negative:
  "calculate_opening_hours_duration (Some ''Mo-Su 99:00-00:00'') = - 525"
  by code_simp

text \<open>
  Claim C3. On the input \<^verbatim>\<open>Mo-Fr 09:00-17:00; Sa-Su 10:00-14:00\<close> the function returns the
  40 hours of the first clause, while the sum over the two clauses, which the loop over
  the semicolon-separated parts would compute, is 48.
\<close>

theorem opening_hours_first_clause_only:
  "calculate_opening_hours_duration (Some ''Mo-Fr 09:00-17:00; Sa-Su 10:00-14:00'') = 40
   \<and> sum_parts (split_on CHR '';'' (strip (lower ''Mo-Fr 09:00-17:00; Sa-Su 10:00-14:00''))) 0 = 48"
  by code_simp

section \<open>Deduplication of two candidates\<close>

lemma pois_by_type_pair: "poi_type a = poi_type b \<Longrightarrow> pois_by_type [a, b] = [(poi_type a, [a, b])]"
  by (simp add: pois_by_type_def)

lemma pois_by_type_pair_diff:
  "poi_type a \<noteq> poi_type b \<Longrightarrow> pois_by_type [a, b] = [(poi_type a, [a]), (poi_type b, [b])]"
  by (simp add: pois_by_type_def)

lemma sort_key_pair: "sort_key f [a, b] = (if f b < f a then [b, a] else [a, b])"
  by (auto simp: not_less)

lemma pref_key_by_model: "pref_key_by calculate_opening_hours_duration = pref_key"
  by (simp add: fun_eq_iff pref_key_by_def pref_key_def)

lemma dedup_group_by_model: "dedup_group_by calculate_opening_hours_duration = dedup_group"
proof (intro ext)
  fix settings r t ps
  show "dedup_group_by calculate_opening_hours_duration settings r t ps = dedup_group settings r t ps"
    unfolding dedup_group_by_def dedup_group_def
    by (subst pref_key_by_model) (rule refl)
qed

lemma deduplicate_pois_by_model:
  "deduplicate_pois_by calculate_opening_hours_duration pois r settings = deduplicate_pois pois r settings"
  unfolding deduplicate_pois_by_def deduplicate_pois_def
  by (subst dedup_group_by_model) (rule refl)

lemma spec_prefers_by_model:
  "spec_prefers_by calculate_opening_hours_duration a b = spec_prefers a b"
  by (simp add: spec_prefers_by_def spec_prefers_def weekly_hours_def)

lemma spec_prefers_by_iff:
  "spec_prefers_by duration a b \<longleftrightarrow> pref_key_by duration a < pref_key_by duration b"
  unfolding spec_prefers_by_def pref_key_by_def less_prod_def' has_brand_def has_reference_def
    has_url_def has_name_def
  by auto

lemma spec_prefers_by_asym: "spec_prefers_by duration a b \<Longrightarrow> \<not> spec_prefers_by duration b a"
  by (simp add: spec_prefers_by_iff)

lemma dedup_pair_by:
  assumes "poi_type a = poi_type b" "poi_type a \<in> set deduplicate_types"
    and "haversine (lat a, lon a) (lat b, lon b) < dedup_radius settings r (poi_type a)"
  shows "deduplicate_pois_by duration [a, b] r settings = [if spec_prefers_by duration b a then b else a]"
proof -
  have "haversine (lat b, lon b) (lat a, lon a) < dedup_radius settings r (poi_type a)"
    using assms(3) by (simp add: haversine_sym)
  with assms show ?thesis
    by (simp add: deduplicate_pois_by_def pois_by_type_pair dedup_group_by_def sort_key_pair
        too_close_def spec_prefers_by_iff del: sort_key_simps)
qed

text \<open>
  Two bicycle vending machines about 111 metres apart, the first one closer to the route
  and always open: with a radius of 1 km both are retained, since their category is not
  in \<^verbatim>\<open>deduplicate_types\<close>.
\<close>

theorem bicycle_vending_both_retained:
  "poi_type bike_a = poi_type bike_b
   \<and> \<not> apart (dedup_radius None 1 (poi_type bike_a)) bike_a bike_b
   \<and> spec_prefers bike_a bike_b
   \<and> deduplicate_pois [bike_a, bike_b] 1 None = [bike_a, bike_b]"
proof -
  have "\<not> apart (dedup_radius None 1 (poi_type bike_a)) bike_a bike_b"
    using near_example by (simp add: apart_def dedup_radius_def bike_a_def bike_b_def example_poi_def)
  moreover have "spec_prefers bike_a bike_b"
    by (simp add: spec_prefers_def bike_a_def bike_b_def example_poi_def)
  moreover have "deduplicate_pois [bike_a, bike_b] 1 None = [bike_a, bike_b]"
    by (simp add: deduplicate_pois_def pois_by_type_def dedup_group_def deduplicate_types_def
        bike_a_def bike_b_def example_poi_def)
  ultimately show ?thesis by (simp add: bike_a_def bike_b_def example_poi_def)
qed

text \<open>
  Claim C1, for the categories of \<^verbatim>\<open>deduplicate_types\<close>. Of two POIs of one such category
  that are closer to each other than the radius of the category, exactly one is retained:
  the one the preference of the specification ranks first (closer to the route, then
  longer weekly hours as the method computes them, then brand or operator, then
  Wikipedia or Wikidata, then URL, then name). This holds whatever number the method
  returns for the opening hours of a POI.
\<close>

theorem dedup_two_keeps_preferred:
  assumes "poi_type a = poi_type b" and "poi_type a \<in> set deduplicate_types"
    and "haversine (lat a, lon a) (lat b, lon b) < dedup_radius settings r (poi_type a)"
  shows "length (deduplicate_pois_by duration [a, b] r settings) = 1
    \<and> (spec_prefers_by duration a b \<longrightarrow> deduplicate_pois_by duration [a, b] r settings = [a])
    \<and> (spec_prefers_by duration b a \<longrightarrow> deduplicate_pois_by duration [a, b] r settings = [b])"
  using dedup_pair_by [OF assms, of duration] spec_prefers_by_asym [of duration a b] by auto

lemma toilets_prefer_by: "spec_prefers_by calculate_opening_hours_duration toilet_always toilet_weekdays"
  by code_simp

theorem dedup_two_keeps_preferred_witness:
  "deduplicate_pois_by calculate_opening_hours_duration [toilet_always, toilet_weekdays] 1 None
     = [toilet_always]
   \<and> deduplicate_pois_by calculate_opening_hours_duration [toilet_weekdays, toilet_always] 1 None
     = [toilet_always]"
proof -
  have t: "poi_type toilet_always = poi_type toilet_weekdays"
    by (simp add: toilet_always_def toilet_weekdays_def example_poi_def)
  have e: "poi_type toilet_always \<in> set deduplicate_types"
    by (simp add: toilet_always_def example_poi_def deduplicate_types_def)
  have n: "haversine (lat toilet_always, lon toilet_always) (lat toilet_weekdays, lon toilet_weekdays)
      < dedup_radius None 1 (poi_type toilet_always)"
    using near_example by (simp add: toilet_always_def toilet_weekdays_def example_poi_def dedup_radius_def)
  have n': "haversine (lat toilet_weekdays, lon toilet_weekdays) (lat toilet_always, lon toilet_always)
      < dedup_radius None 1 (poi_type toilet_weekdays)"
    using n t by (simp add: haversine_sym)
  show ?thesis
    using dedup_two_keeps_preferred [OF t e n, of calculate_opening_hours_duration]
      dedup_two_keeps_preferred [OF t [symmetric] _ n', of calculate_opening_hours_duration]
      e t toilets_prefer_by
    by simp
qed


section \<open>Deduplication of any list\<close>

lemma map_fst_group_insert:
  "map fst (group_insert p gs) =
     (if poi_type p \<in> set (map fst gs) then map fst gs else map fst gs @ [poi_type p])"
  by (induction gs) (auto simp: rev_image_eqI)

lemma map_of_group_insert:
  "map_of (group_insert p gs) =
     (map_of gs)(poi_type p \<mapsto> (case map_of gs (poi_type p) of None \<Rightarrow> [p] | Some g \<Rightarrow> g @ [p]))"
  by (induction gs) (auto simp: fun_eq_iff)

lemma pois_by_type_snoc: "pois_by_type (ps @ [p]) = group_insert p (pois_by_type ps)"
  by (simp add: pois_by_type_def)

lemma pois_by_type_keys: "set (map fst (pois_by_type ps)) = poi_type ` set ps"
proof (induction ps rule: rev_induct)
  case Nil
  then show ?case by (simp add: pois_by_type_def)
next
  case (snoc p ps)
  then show ?case by (auto simp: pois_by_type_snoc map_fst_group_insert)
qed

lemma pois_by_type_distinct: "distinct (map fst (pois_by_type ps))"
proof (induction ps rule: rev_induct)
  case Nil
  then show ?case by (simp add: pois_by_type_def)
next
  case (snoc p ps)
  then show ?case by (simp add: pois_by_type_snoc map_fst_group_insert)
qed

lemma pois_by_type_lookup:
  "map_of (pois_by_type ps) t =
     (if t \<in> poi_type ` set ps then Some (filter (\<lambda>p. poi_type p = t) ps) else None)"
proof (induction ps rule: rev_induct)
  case Nil
  then show ?case by (simp add: pois_by_type_def)
next
  case (snoc p ps)
  show ?case
  proof (cases "t = poi_type p")
    case True
    have "poi_type p \<notin> poi_type ` set ps \<Longrightarrow> filter (\<lambda>q. poi_type q = poi_type p) ps = []"
      by (auto simp: filter_empty_conv image_iff)
    then show ?thesis using snoc True by (simp add: pois_by_type_snoc map_of_group_insert)
  next
    case False
    then show ?thesis using snoc by (simp add: pois_by_type_snoc map_of_group_insert)
  qed
qed

lemma filter_concat_groups:
  assumes "distinct (map fst gs)"
    and "\<And>t' g p. (t', g) \<in> set gs \<Longrightarrow> p \<in> set (F t' g) \<Longrightarrow> poi_type p = t'"
  shows "filter (\<lambda>p. poi_type p = t) (concat (map (\<lambda>(t', g). F t' g) gs)) =
           (case map_of gs t of Some g \<Rightarrow> F t g | None \<Rightarrow> [])"
  using assms
proof (induction gs)
  case Nil
  then show ?case by simp
next
  case (Cons x gs)
  obtain t' g where x: "x = (t', g)" by (cases x)
  have d: "distinct (map fst gs)" using Cons.prems(1) by simp
  have m: "\<And>t' g p. (t', g) \<in> set gs \<Longrightarrow> p \<in> set (F t' g) \<Longrightarrow> poi_type p = t'"
    using Cons.prems(2) by (meson list.set_intros(2))
  have ih: "filter (\<lambda>p. poi_type p = t) (concat (map (\<lambda>(t', g). F t' g) gs)) =
           (case map_of gs t of Some g \<Rightarrow> F t g | None \<Rightarrow> [])"
    using Cons.IH [OF d m] .
  have own: "\<And>p. p \<in> set (F t' g) \<Longrightarrow> poi_type p = t'"
    using Cons.prems(2) [of t' g] x by simp
  show ?case
  proof (cases "t' = t")
    case True
    have "t \<notin> fst ` set gs" using Cons.prems(1) x True by simp
    then have none: "map_of gs t = None"
      by (simp add: map_of_eq_None_iff)
    have "filter (\<lambda>p. poi_type p = t) (F t' g) = F t g"
      using own True by (simp add: filter_id_conv)
    then show ?thesis using ih x True none by simp
  next
    case False
    have "filter (\<lambda>p. poi_type p = t) (F t' g) = []"
      using own False by (auto simp: filter_empty_conv)
    then show ?thesis using ih x False by simp
  qed
qed

lemma keep_loop_subset: "set (keep_loop r kept xs) \<subseteq> set kept \<union> set xs"
proof (induction xs arbitrary: kept)
  case Nil
  then show ?case by simp
next
  case (Cons x xs)
  show ?case using Cons [of "kept"] Cons [of "kept @ [x]"] by auto
qed

lemma dedup_group_subset: "set (dedup_group s r t g) \<subseteq> set g"
  using keep_loop_subset [of "dedup_radius s r t" "[]" "sort_key pref_key g"]
  by (auto simp: dedup_group_def)

lemma dedup_group_Nil: "dedup_group s r t [] = []"
  by (simp add: dedup_group_def)

lemma deduplicate_pois_by_type:
  "filter (\<lambda>p. poi_type p = t) (deduplicate_pois pois r s) =
     dedup_group s r t (filter (\<lambda>p. poi_type p = t) pois)"
proof -
  have typed: "\<And>t' g p. (t', g) \<in> set (pois_by_type pois) \<Longrightarrow> p \<in> set (dedup_group s r t' g)
      \<Longrightarrow> poi_type p = t'"
  proof -
    fix t' g p assume a: "(t', g) \<in> set (pois_by_type pois)" "p \<in> set (dedup_group s r t' g)"
    from a(1) have "map_of (pois_by_type pois) t' = Some g"
      using pois_by_type_distinct by simp
    then have "g = filter (\<lambda>p. poi_type p = t') pois"
      by (simp add: pois_by_type_lookup split: if_splits)
    moreover have "p \<in> set g" using a(2) dedup_group_subset by blast
    ultimately show "poi_type p = t'" by simp
  qed
  have "filter (\<lambda>p. poi_type p = t) (deduplicate_pois pois r s) =
      (case map_of (pois_by_type pois) t of Some g \<Rightarrow> dedup_group s r t g | None \<Rightarrow> [])"
    unfolding deduplicate_pois_def
    by (rule filter_concat_groups [OF pois_by_type_distinct]) (rule typed)
  also have "\<dots> = dedup_group s r t (filter (\<lambda>p. poi_type p = t) pois)"
  proof (cases "t \<in> poi_type ` set pois")
    case True
    then show ?thesis by (simp add: pois_by_type_lookup)
  next
    case False
    then have "filter (\<lambda>p. poi_type p = t) pois = []"
      by (auto simp: filter_empty_conv image_iff)
    then show ?thesis using False by (simp add: pois_by_type_lookup dedup_group_Nil)
  qed
  finally show ?thesis .
qed

lemma deduplicate_pois_subset: "set (deduplicate_pois pois r s) \<subseteq> set pois"
proof
  fix p assume "p \<in> set (deduplicate_pois pois r s)"
  then have "p \<in> set (filter (\<lambda>q. poi_type q = poi_type p) (deduplicate_pois pois r s))" by simp
  then have "p \<in> set (dedup_group s r (poi_type p) (filter (\<lambda>q. poi_type q = poi_type p) pois))"
    by (simp only: deduplicate_pois_by_type)
  then have "p \<in> set (filter (\<lambda>q. poi_type q = poi_type p) pois)"
    using dedup_group_subset by blast
  then show "p \<in> set pois" by simp
qed

lemma deduplicate_pois_independent:
  "filter (\<lambda>p. poi_type p = t) (deduplicate_pois pois r s) =
     deduplicate_pois (filter (\<lambda>p. poi_type p = t) pois) r s"
proof -
  define ps where "ps = filter (\<lambda>p. poi_type p = t) pois"
  have sub: "\<And>p. p \<in> set (deduplicate_pois ps r s) \<Longrightarrow> poi_type p = t"
  proof -
    fix p assume "p \<in> set (deduplicate_pois ps r s)"
    then have "p \<in> set ps" using deduplicate_pois_subset by blast
    then show "poi_type p = t" by (simp add: ps_def)
  qed
  have same: "filter (\<lambda>p. poi_type p = t) ps = ps" by (simp add: ps_def)
  have "filter (\<lambda>p. poi_type p = t) (deduplicate_pois pois r s) = dedup_group s r t ps"
    unfolding ps_def by (rule deduplicate_pois_by_type)
  also have "\<dots> = dedup_group s r t (filter (\<lambda>p. poi_type p = t) ps)"
    by (simp only: same)
  also have "\<dots> = filter (\<lambda>p. poi_type p = t) (deduplicate_pois ps r s)"
    by (rule deduplicate_pois_by_type [symmetric])
  also have "\<dots> = deduplicate_pois ps r s"
    using sub by (simp only: filter_id_conv) blast
  finally show ?thesis by (simp only: ps_def)
qed

lemma sorted_wrt_by_filter:
  assumes "\<And>t. sorted_wrt (P t) (filter (\<lambda>x. f x = t) xs)"
  shows "sorted_wrt (\<lambda>x y. f x = f y \<longrightarrow> P (f x) x y) xs"
  using assms
proof (induction xs)
  case Nil
  then show ?case by simp
next
  case (Cons x xs)
  have tl: "\<And>t. sorted_wrt (P t) (filter (\<lambda>x. f x = t) xs)"
  proof -
    fix t show "sorted_wrt (P t) (filter (\<lambda>x. f x = t) xs)"
      using Cons.prems [of t] by (cases "f x = t") simp_all
  qed
  have "\<forall>y \<in> set xs. f x = f y \<longrightarrow> P (f x) x y"
    using Cons.prems [of "f x"] by auto
  then show ?case using Cons.IH [OF tl] by simp
qed

lemma apart_sym: "apart r x y = apart r y x"
  by (simp add: apart_def haversine_sym)

lemma keep_loop_apart:
  "sorted_wrt (apart r) kept \<Longrightarrow> sorted_wrt (apart r) (keep_loop r kept xs)"
proof (induction xs arbitrary: kept)
  case Nil
  then show ?case by simp
next
  case (Cons x xs)
  show ?case
  proof (cases "too_close r x kept")
    case True
    then show ?thesis using Cons by simp
  next
    case False
    then have "\<forall>k \<in> set kept. \<not> haversine (lat x, lon x) (lat k, lon k) < r"
      by (simp add: too_close_def list_ex_iff)
    then have "\<forall>k \<in> set kept. apart r k x"
      by (simp add: apart_def haversine_sym [of "(lat x, lon x)"] not_less)
    then have "sorted_wrt (apart r) (kept @ [x])"
      using Cons.prems by (simp add: sorted_wrt_append)
    then show ?thesis using Cons.IH False by simp
  qed
qed

lemma deduplicate_pois_apart:
  "sorted_wrt (\<lambda>x y. poi_type x = poi_type y \<longrightarrow>
      (poi_type x \<in> set deduplicate_types \<longrightarrow> apart (dedup_radius s r (poi_type x)) x y))
     (deduplicate_pois pois r s)"
proof (rule sorted_wrt_by_filter [where P = "\<lambda>t x y. t \<in> set deduplicate_types \<longrightarrow> apart (dedup_radius s r t) x y"])
  fix t
  show "sorted_wrt (\<lambda>x y. t \<in> set deduplicate_types \<longrightarrow> apart (dedup_radius s r t) x y)
      (filter (\<lambda>x. poi_type x = t) (deduplicate_pois pois r s))"
  proof (cases "t \<in> set deduplicate_types")
    case True
    have "sorted_wrt (apart (dedup_radius s r t))
       (keep_loop (dedup_radius s r t) [] (sort_key pref_key (filter (\<lambda>x. poi_type x = t) pois)))"
      by (rule keep_loop_apart) simp
    then show ?thesis using True
      by (simp only: deduplicate_pois_by_type dedup_group_def if_True simp_thms)
  next
    case False
    then show ?thesis by (simp only: simp_thms sorted_wrt_true)
  qed
qed

lemma dedup_pair_diff: "poi_type a \<noteq> poi_type b \<Longrightarrow> deduplicate_pois [a, b] r s = [a, b]"
  by (simp add: deduplicate_pois_def pois_by_type_pair_diff dedup_group_def too_close_def)

text \<open>
  Claim C2. In the list that \<^verbatim>\<open>deduplicate_pois\<close> returns, two POIs of one deduplicated
  category are never closer to each other than the radius of that category; what is
  retained of a category depends on the POIs of that category alone; and two POIs of
  different categories are both retained, whatever their distance.
\<close>

theorem dedup_retained_apart:
  "(\<forall>i j. i < j \<and> j < length (deduplicate_pois pois r s)
       \<and> poi_type (deduplicate_pois pois r s ! i) = poi_type (deduplicate_pois pois r s ! j)
       \<and> poi_type (deduplicate_pois pois r s ! i) \<in> set deduplicate_types
     \<longrightarrow> apart (dedup_radius s r (poi_type (deduplicate_pois pois r s ! i)))
           (deduplicate_pois pois r s ! i) (deduplicate_pois pois r s ! j)
       \<and> apart (dedup_radius s r (poi_type (deduplicate_pois pois r s ! i)))
           (deduplicate_pois pois r s ! j) (deduplicate_pois pois r s ! i))
   \<and> (\<forall>t. filter (\<lambda>p. poi_type p = t) (deduplicate_pois pois r s)
          = deduplicate_pois (filter (\<lambda>p. poi_type p = t) pois) r s)
   \<and> (\<forall>a b. poi_type a \<noteq> poi_type b \<longrightarrow> deduplicate_pois [a, b] r s = [a, b])"
proof (intro conjI allI impI)
  fix i j
  assume a: "i < j \<and> j < length (deduplicate_pois pois r s)
       \<and> poi_type (deduplicate_pois pois r s ! i) = poi_type (deduplicate_pois pois r s ! j)
       \<and> poi_type (deduplicate_pois pois r s ! i) \<in> set deduplicate_types"
  then have "apart (dedup_radius s r (poi_type (deduplicate_pois pois r s ! i)))
           (deduplicate_pois pois r s ! i) (deduplicate_pois pois r s ! j)"
    using deduplicate_pois_apart [of s r pois, unfolded sorted_wrt_iff_nth_less] by blast
  then show "apart (dedup_radius s r (poi_type (deduplicate_pois pois r s ! i)))
           (deduplicate_pois pois r s ! i) (deduplicate_pois pois r s ! j)"
    and "apart (dedup_radius s r (poi_type (deduplicate_pois pois r s ! i)))
           (deduplicate_pois pois r s ! j) (deduplicate_pois pois r s ! i)"
    by (simp_all add: apart_sym)
next
  fix t show "filter (\<lambda>p. poi_type p = t) (deduplicate_pois pois r s)
          = deduplicate_pois (filter (\<lambda>p. poi_type p = t) pois) r s"
    by (rule deduplicate_pois_independent)
next
  fix a b :: POI assume "poi_type a \<noteq> poi_type b"
  then show "deduplicate_pois [a, b] r s = [a, b]" by (rule dedup_pair_diff)
qed

lemma toilets_far_kept: "deduplicate_pois [toilet_always, toilet_far] 1 None = [toilet_always, toilet_far]"
proof -
  have "\<not> haversine (1, 0) (0, 0) < 1" using far_example by (simp add: haversine_sym [of "(1, 0)"])
  then show ?thesis
    by (simp add: deduplicate_pois_def pois_by_type_def dedup_group_def deduplicate_types_def
        toilet_always_def toilet_far_def example_poi_def too_close_def dedup_radius_def pref_key_def
        less_eq_prod_def)
qed

theorem dedup_retained_apart_witness:
  "deduplicate_pois [toilet_always, toilet_far] 1 None = [toilet_always, toilet_far]
   \<and> apart 1 toilet_always toilet_far
   \<and> deduplicate_pois [toilet_always, bakery_near] 1 None = [toilet_always, bakery_near]"
proof -
  have d: "poi_type toilet_always \<noteq> poi_type bakery_near"
    by (simp add: toilet_always_def bakery_near_def example_poi_def)
  have t: "poi_type toilet_always = ''public_toilets''" "poi_type toilet_far = ''public_toilets''"
    by (simp_all add: toilet_always_def toilet_far_def example_poi_def)
  have e: "''public_toilets'' \<in> set deduplicate_types" by (simp add: deduplicate_types_def)
  note inst = dedup_retained_apart [of "[toilet_always, toilet_far]" 1 None]
  from inst have "0 < (1::nat) \<and> 1 < length (deduplicate_pois [toilet_always, toilet_far] 1 None)
       \<and> poi_type (deduplicate_pois [toilet_always, toilet_far] 1 None ! 0)
          = poi_type (deduplicate_pois [toilet_always, toilet_far] 1 None ! 1)
       \<and> poi_type (deduplicate_pois [toilet_always, toilet_far] 1 None ! 0) \<in> set deduplicate_types
     \<longrightarrow> apart (dedup_radius None 1 (poi_type (deduplicate_pois [toilet_always, toilet_far] 1 None ! 0)))
           (deduplicate_pois [toilet_always, toilet_far] 1 None ! 0)
           (deduplicate_pois [toilet_always, toilet_far] 1 None ! 1)"
    by blast
  then have "apart 1 toilet_always toilet_far"
    by (simp add: toilets_far_kept t e dedup_radius_def)
  moreover from inst d have "deduplicate_pois [toilet_always, bakery_near] 1 None = [toilet_always, bakery_near]"
    by blast
  ultimately show ?thesis using toilets_far_kept by simp
qed

text \<open>
  Two vending machines about 111 metres apart are both retained with a radius of 1 km:
  the category is in the category table and not in \<^verbatim>\<open>deduplicate_types\<close>.
\<close>

theorem vending_machines_pass_through:
  "''vending_machines'' \<in> set config_keys
   \<and> poi_type vending_a = ''vending_machines'' \<and> poi_type vending_b = ''vending_machines''
   \<and> \<not> apart 1 vending_a vending_b
   \<and> deduplicate_pois [vending_a, vending_b] 1 None = [vending_a, vending_b]"
proof -
  have "\<not> apart 1 vending_a vending_b"
    using near_example by (simp add: apart_def vending_a_def vending_b_def example_poi_def)
  moreover have "deduplicate_pois [vending_a, vending_b] 1 None = [vending_a, vending_b]"
    by (simp add: deduplicate_pois_def pois_by_type_def dedup_group_def deduplicate_types_def
        vending_a_def vending_b_def example_poi_def)
  ultimately show ?thesis
    by (simp add: config_keys_def POI_TYPE_CONFIG_def vending_a_def vending_b_def example_poi_def)
qed

text \<open>
  Claim C4, as the code has it. The POIs of a category of \<^verbatim>\<open>deduplicate_types\<close> go through
  the sort and the radius suppression; the POIs of any other category are returned as
  they came. Of the categories of the table, \<^verbatim>\<open>bicycle_vending\<close> and \<^verbatim>\<open>vending_machines\<close> are
  the two that are not in \<^verbatim>\<open>deduplicate_types\<close>.
\<close>

theorem dedup_applies_to_listed_categories:
  "filter (\<lambda>p. poi_type p = t) (deduplicate_pois pois r s) =
     (if t \<in> set deduplicate_types
      then keep_loop (dedup_radius s r t) [] (sort_key pref_key (filter (\<lambda>p. poi_type p = t) pois))
      else filter (\<lambda>p. poi_type p = t) pois)
   \<and> filter (\<lambda>t. t \<notin> set deduplicate_types) config_keys = [''bicycle_vending'', ''vending_machines'']"
  by (simp add: deduplicate_pois_by_type dedup_group_def config_keys_def POI_TYPE_CONFIG_def
      deduplicate_types_def)

section \<open>Distance along the route\<close>

lemma distance_loop_upt:
  "b < length pts \<Longrightarrow> a \<le> b \<Longrightarrow>
     distance_loop pts [a..<b] d = Inr (d + (\<Sum>k = a..<b. haversine_distance (pts ! k) (pts ! Suc k)))"
proof (induction "b - a" arbitrary: a d)
  case 0
  then show ?case by simp
next
  case (Suc n)
  then have lt: "a < b" and n: "n = b - Suc a" and le: "Suc a \<le> b" by auto
  have "distance_loop pts [a..<b] d
      = distance_loop pts [Suc a..<b] (d + haversine_distance (pts ! a) (pts ! Suc a))"
    using lt Suc.prems(1) by (simp add: upt_conv_Cons point_at_def)
  also have "\<dots> = Inr (d + haversine_distance (pts ! a) (pts ! Suc a)
      + (\<Sum>k = Suc a..<b. haversine_distance (pts ! k) (pts ! Suc k)))"
    using Suc.hyps(1) [OF n Suc.prems(1) le] .
  also have "\<dots> = Inr (d + (\<Sum>k = a..<b. haversine_distance (pts ! k) (pts ! Suc k)))"
    using lt by (simp add: sum.atLeast_Suc_lessThan)
  finally show ?case .
qed

lemma route_length_sum:
  "route_length pts = (\<Sum>k<length pts - 1. haversine_distance (pts ! k) (pts ! Suc k))"
proof (induction pts rule: route_length.induct)
  case (1 a b rest)
  then show ?case by (simp add: sum.lessThan_Suc_shift del: sum.lessThan_Suc)
qed simp_all

lemma best_range: "best c cs \<in> fst ` set (c # cs)"
proof (induction c cs rule: best.induct)
  case (1 i d)
  then show ?case by simp
next
  case (2 i d j e rest)
  then show ?case by (cases "e < d") auto
qed

lemma linear_index_range: "i \<in> set (linear_index pts box) \<Longrightarrow> i < length pts"
proof -
  assume a: "i \<in> set (linear_index pts box)"
  obtain x y z w where box: "box = (x, y, z, w)" by (cases box) auto
  let ?zs = "zip [0..<length pts] (map (sq_dist x y) pts)"
  have "\<exists>c cs. ?zs = c # cs \<and> i = best c cs"
  proof (cases ?zs)
    case Nil
    then show ?thesis using a box by (simp add: linear_index_def)
  next
    case (Cons c cs)
    then show ?thesis using a box by (simp add: linear_index_def)
  qed
  then obtain c cs where zs: "?zs = c # cs" and i: "i = best c cs" by blast
  have "i \<in> fst ` set ?zs" using best_range [of c cs] i zs by simp
  then obtain d where "(i, d) \<in> set ?zs" by auto
  then have "i \<in> set [0..<length pts]" by (rule set_zip_leftD)
  then show ?thesis by simp
qed

lemma stored_route_index_valid:
  "find_nearest_route_point_index (stored_route pts) p = Inr i \<Longrightarrow> i < length (points (stored_route pts))"
proof -
  assume "find_nearest_route_point_index (stored_route pts) p = Inr i"
  then have "i \<in> set (linear_index pts (RoutePoint.lon p, RoutePoint.lat p, RoutePoint.lon p, RoutePoint.lat p))"
    by (auto simp: find_nearest_route_point_index_def stored_route_def split: list.splits)
  then show ?thesis using linear_index_range by (simp add: stored_route_def)
qed

text \<open>
  Claim C8. When the nearest route point has the index \<open>i\<close>, a position of the route,
  \<^verbatim>\<open>calculate_distance_on_route\<close> returns the sum of the distances between the consecutive
  points \<open>k\<close> and \<open>k + 1\<close> for \<open>k < i\<close>: 0 when the nearest point is the first one, the
  length of the route when it is the last one.
\<close>

theorem distance_on_route_is_prefix_sum:
  assumes "find_nearest_route_point_index rt point = Inr i" and "i < length (points rt)"
  shows "calculate_distance_on_route rt point
           = Inr (\<Sum>k<i. haversine_distance (points rt ! k) (points rt ! Suc k))
    \<and> (i = 0 \<longrightarrow> calculate_distance_on_route rt point = Inr 0)
    \<and> (i = length (points rt) - 1 \<longrightarrow>
         calculate_distance_on_route rt point = Inr (route_length (points rt)))"
proof -
  have "calculate_distance_on_route rt point
           = Inr (\<Sum>k<i. haversine_distance (points rt ! k) (points rt ! Suc k))"
    using assms distance_loop_upt [of i "points rt" 0 0]
    by (simp add: calculate_distance_on_route_def atLeast0LessThan)
  then show ?thesis by (simp add: route_length_sum)
qed

lemma example_nearest_last:
  "find_nearest_route_point_index example_route \<lparr>RoutePoint.lat = 1.2, lon = 0.9\<rparr> = Inr 2"
  by (simp add: find_nearest_route_point_index_def example_route_def stored_route_def linear_index_def
      sq_dist_def power2_eq_square upt_rec)

lemma example_nearest_first:
  "find_nearest_route_point_index example_route \<lparr>RoutePoint.lat = - 0.5, lon = - 0.5\<rparr> = Inr 0"
  by (simp add: find_nearest_route_point_index_def example_route_def stored_route_def linear_index_def
      sq_dist_def power2_eq_square upt_rec)

theorem distance_on_route_is_prefix_sum_witness:
  "calculate_distance_on_route example_route \<lparr>RoutePoint.lat = - 0.5, lon = - 0.5\<rparr> = Inr 0
   \<and> calculate_distance_on_route example_route \<lparr>RoutePoint.lat = 1.2, lon = 0.9\<rparr>
       = Inr (route_length (points example_route))"
proof -
  have len: "length (points example_route) = 3"
    by (simp add: example_route_def stored_route_def)
  have first: "calculate_distance_on_route example_route \<lparr>RoutePoint.lat = - 0.5, lon = - 0.5\<rparr> = Inr 0"
    using distance_on_route_is_prefix_sum [OF example_nearest_first] len by simp
  have lt: "2 < length (points example_route)" using len by simp
  have "2 = length (points example_route) - 1 \<longrightarrow>
      calculate_distance_on_route example_route \<lparr>RoutePoint.lat = 1.2, lon = 0.9\<rparr>
        = Inr (route_length (points example_route))"
    using distance_on_route_is_prefix_sum [OF example_nearest_last lt] by blast
  then show ?thesis using first len by simp
qed

section \<open>The distance filter\<close>






lemma fuel_near_distance:
  "haversine_distance \<lparr>RoutePoint.lat = (1 / 1000), lon = 0\<rparr> \<lparr>RoutePoint.lat = 0, lon = 0\<rparr> \<le> 1"
proof -
  have "haversine (1 / 1000, 0) (0, 0) = haversine (0, 0) (1 / 1000, 0)" by (rule haversine_sym)
  moreover have "haversine (0, 0) (1 / 1000, 0) < 1" using near_example by simp
  ultimately show ?thesis by (simp add: haversine_distance_def)
qed

lemma fuel_far_distance:
  "\<not> haversine_distance \<lparr>RoutePoint.lat = 2, lon = 1\<rparr> \<lparr>RoutePoint.lat = 1, lon = 1\<rparr> \<le> 1"
proof -
  have "haversine (2, 1) (1, 1) = avg_earth_radius_km * \<bar>radians 1 - radians 2\<bar>"
    by (rule haversine_meridian) (simp add: radians_def)
  also have "\<dots> = 6371.0088 * (pi / 180)" by (simp add: avg_earth_radius_km_def radians_def)
  finally have "1 < haversine (2, 1) (1, 1)" using pi_ge_two by simp
  then show ?thesis by (simp add: haversine_distance_def)
qed

lemma example_nearest_origin:
  "find_nearest_route_point_index example_route \<lparr>RoutePoint.lat = 0, lon = 0\<rparr> = Inr 0"
  by (simp add: find_nearest_route_point_index_def example_route_def stored_route_def linear_index_def
      sq_dist_def power2_eq_square upt_rec)

lemma example_nearest_fuel_near:
  "find_nearest_route_point_index example_route \<lparr>RoutePoint.lat = (1 / 1000), lon = 0\<rparr> = Inr 0"
  by (simp add: find_nearest_route_point_index_def example_route_def stored_route_def linear_index_def
      sq_dist_def power2_eq_square upt_rec)

lemma example_nearest_fuel_far:
  "find_nearest_route_point_index example_route \<lparr>RoutePoint.lat = 2, lon = 1\<rparr> = Inr 2"
  by (simp add: find_nearest_route_point_index_def example_route_def stored_route_def linear_index_def
      sq_dist_def power2_eq_square upt_rec)

lemma example_points:
  "points example_route =
     [\<lparr>RoutePoint.lat = 0, lon = 0\<rparr>, \<lparr>RoutePoint.lat = 0, lon = 1\<rparr>, \<lparr>RoutePoint.lat = 1, lon = 1\<rparr>]"
  by (simp add: example_route_def stored_route_def)

lemma example_filter:
  "filter_pois no_display example_route [fuel_near, fuel_far] ''gas_stations'' 1 = Inr [fuel_poi]"
proof -
  have on: "calculate_distance_on_route example_route \<lparr>RoutePoint.lat = 0, lon = 0\<rparr> = Inr 0"
    by (simp add: calculate_distance_on_route_def example_nearest_origin)
  have near: "element_poi no_display example_route ''gas_stations'' ''Unnamed Gas Station'' 1 fuel_near (1 / 1000) 0
      = Inr (Some fuel_poi)"
    using fuel_near_distance
    by (simp add: element_poi_def Let_def example_nearest_fuel_near example_points point_at_def
        on fuel_poi_def)
  have far: "element_poi no_display example_route ''gas_stations'' ''Unnamed Gas Station'' 1 fuel_far 2 1
      = Inr None"
    using fuel_far_distance
    by (simp add: element_poi_def Let_def example_nearest_fuel_far example_points point_at_def)
  have c1: "element_coordinates fuel_near = Some ((1 / 1000), 0)"
    by (simp add: element_coordinates_def own_coordinates_def fuel_near_def)
  have c2: "element_coordinates fuel_far = Some (2, 1)"
    by (simp add: element_coordinates_def own_coordinates_def fuel_far_def)
  have d: "default_name_of ''gas_stations'' = Some ''Unnamed Gas Station''"
    by (simp add: default_name_of_def POI_TYPE_CONFIG_def)
  show ?thesis
    by (simp add: filter_pois_def d c1 c2 near far)
qed


section \<open>Failover between the endpoints\<close>

lemma permanent_verdict:
  "is_permanent out \<Longrightarrow> \<exists>msg. classify a out = Next_endpoint (ValueError msg)"
  by (cases out) (auto simp: is_permanent_def classify_def)

lemma success_verdict: "is_success data out \<Longrightarrow> classify a out = Success data"
  by (cases out) (auto simp: is_success_def classify_def)

lemma try_attempts_permanent:
  assumes "is_permanent (net tr (post (45 + a * 15)))"
  shows "\<exists>msg. try_attempts net post m (a # later) lerr tr
           = (tr @ [post (45 + a * 15)], Exhausted (Some (ValueError msg)))"
proof -
  from permanent_verdict [OF assms] obtain msg
    where "classify a (net tr (post (45 + a * 15))) = Next_endpoint (ValueError msg)" by blast
  then show ?thesis by (simp add: Let_def)
qed

lemma try_attempts_success:
  assumes "is_success data (net tr (post (45 + a * 15)))"
  shows "try_attempts net post m (a # later) lerr tr = (tr @ [post (45 + a * 15)], Returned data)"
  using success_verdict [OF assms] by (simp add: Let_def)

lemma try_attempts_last_request:
  assumes "a < m" and "try_attempts net post m [a..<m] lerr tr = (tr', res)"
  shows "\<exists>h b. a \<le> b \<and> b < m \<and> tr' = h @ [post (45 + b * 15)]
           \<and> res = final_result (classify b (net h (post (45 + b * 15))))"
  using assms
proof (induction "m - a" arbitrary: a lerr tr)
  case 0
  then show ?case by simp
next
  case (Suc n)
  let ?req = "post (45 + a * 15)"
  have upt: "[a..<m] = a # [Suc a..<m]" using Suc.prems(1) by (simp add: upt_conv_Cons)
  show ?case
  proof (cases "classify a (net tr ?req)")
    case (Success data)
    then have "tr' = tr @ [?req]" "res = Returned data"
      using Suc.prems(2) upt by (simp_all add: Let_def)
    then show ?thesis using Success Suc.prems(1) by (auto simp: final_result_def)
  next
    case (Propagate e)
    then have "tr' = tr @ [?req]" "res = Raised e"
      using Suc.prems(2) upt by (simp_all add: Let_def)
    then show ?thesis using Propagate Suc.prems(1) by (auto simp: final_result_def)
  next
    case (Next_endpoint e)
    then have "tr' = tr @ [?req]" "res = Exhausted (Some e)"
      using Suc.prems(2) upt by (simp_all add: Let_def)
    then show ?thesis using Next_endpoint Suc.prems(1) by (auto simp: final_result_def)
  next
    case (Retry e w)
    show ?thesis
    proof (cases "int a < int m - 1")
      case True
      then have lt: "Suc a < m" by simp
      have n: "n = m - Suc a" using Suc.hyps(2) by simp
      have run: "try_attempts net post m [Suc a..<m] (Some e) (tr @ [?req] @ [Sleep w]) = (tr', res)"
        using Suc.prems(2) upt Retry True by (simp add: Let_def)
      from Suc.hyps(1) [OF n lt run] obtain h b where
        "Suc a \<le> b" "b < m" "tr' = h @ [post (45 + b * 15)]"
        "res = final_result (classify b (net h (post (45 + b * 15))))" by blast
      then show ?thesis by (intro exI [of _ h] exI [of _ b]) simp
    next
      case False
      then have "tr' = tr @ [?req]" "res = Exhausted (Some e)"
        using Suc.prems(2) upt Retry by (simp_all add: Let_def)
      then show ?thesis using Retry Suc.prems(1) by (auto simp: final_result_def)
    qed
  qed
qed

lemma url_loop_exhausted:
  "try_attempts net (post u) m [0..<m] lerr tr = (tr', Exhausted lerr')
     \<Longrightarrow> url_loop net post m (u # us) lerr tr = url_loop net post m us lerr' tr'"
  by simp

lemma url_loop_returned:
  "try_attempts net (post u) m [0..<m] lerr tr = (tr', Returned data)
     \<Longrightarrow> url_loop net post m (u # us) lerr tr = (tr', Inr data)"
  by simp

lemma url_loop_last_request:
  assumes "urls \<noteq> []" and "0 < m" and "url_loop net post m urls lerr tr = (tr', res)"
  shows "\<exists>h u a. u \<in> set urls \<and> a < m \<and> tr' = h @ [post u (45 + a * 15)]
           \<and> res = call_result (classify a (net h (post u (45 + a * 15))))"
  using assms
proof (induction urls arbitrary: lerr tr)
  case Nil
  then show ?case by simp
next
  case (Cons u us)
  obtain tr1 r1 where t: "try_attempts net (post u) m [0..<m] lerr tr = (tr1, r1)"
    by (cases "try_attempts net (post u) m [0..<m] lerr tr")
  from try_attempts_last_request [OF Cons.prems(2) t] obtain h b where
    hb: "b < m" "tr1 = h @ [post u (45 + b * 15)]"
      "r1 = final_result (classify b (net h (post u (45 + b * 15))))" by blast
  let ?v = "classify b (net h (post u (45 + b * 15)))"
  have here: "tr' = tr1 \<and> res = call_result ?v \<Longrightarrow> ?case"
    using hb by (intro exI [of _ h] exI [of _ u] exI [of _ b]) simp
  have exhausted: "\<And>e. r1 = Exhausted (Some e) \<Longrightarrow> call_result ?v = Inl e \<Longrightarrow> ?case"
  proof -
    fix e assume r1: "r1 = Exhausted (Some e)" and cr: "call_result ?v = Inl e"
    have next_urls: "url_loop net post m us (Some e) tr1 = (tr', res)"
      using Cons.prems(3) t r1 by simp
    show ?case
    proof (cases "us = []")
      case True
      then have "tr' = tr1 \<and> res = Inl e" using next_urls by simp
      then show ?thesis using here cr by simp
    next
      case False
      from Cons.IH [OF False Cons.prems(2) next_urls] obtain h' u' a' where
        "u' \<in> set us" "a' < m" "tr' = h' @ [post u' (45 + a' * 15)]"
        "res = call_result (classify a' (net h' (post u' (45 + a' * 15))))" by blast
      then show ?thesis by (intro exI [of _ h'] exI [of _ u'] exI [of _ a']) simp
    qed
  qed
  show ?case
  proof (cases ?v)
    case (Success data)
    then have "r1 = Returned data" using hb(3) by (simp add: final_result_def)
    then have "tr' = tr1 \<and> res = Inr data" using Cons.prems(3) t by simp
    then show ?thesis using here Success by (simp add: call_result_def)
  next
    case (Propagate e)
    then have "r1 = Raised e" using hb(3) by (simp add: final_result_def)
    then have "tr' = tr1 \<and> res = Inl e" using Cons.prems(3) t by simp
    then show ?thesis using here Propagate by (simp add: call_result_def)
  next
    case (Next_endpoint e)
    then show ?thesis using exhausted [of e] hb(3) by (simp add: final_result_def call_result_def)
  next
    case (Retry e w)
    then show ?thesis using exhausted [of e] hb(3) by (simp add: final_result_def call_result_def)
  qed
qed

lemma url_loop_failure:
  assumes "urls \<noteq> []" and "0 < m" and "url_loop net post m urls lerr tr = (tr', Inl err)"
  shows "\<exists>h u a. u \<in> set urls \<and> a < m \<and> tr' = h @ [post u (45 + a * 15)]
           \<and> error_of a (net h (post u (45 + a * 15))) = Some err"
proof -
  from url_loop_last_request [OF assms] obtain h u a where
    *: "u \<in> set urls" "a < m" "tr' = h @ [post u (45 + a * 15)]"
      "Inl err = call_result (classify a (net h (post u (45 + a * 15))))" by blast
  from *(4) have "error_of a (net h (post u (45 + a * 15))) = Some err"
    by (cases "classify a (net h (post u (45 + a * 15)))") (simp_all add: call_result_def error_of_def)
  with * show ?thesis by blast
qed

lemma url_loop_rate_limited:
  assumes "urls \<noteq> []" and "0 < m" and "\<forall>h r. \<exists>b. net h r = Response 429 b"
  shows "snd (url_loop net post m urls lerr tr) = Inl (ConnectionError ''Overpass API rate limit exceeded.'')"
proof -
  obtain tr' res where r: "url_loop net post m urls lerr tr = (tr', res)"
    by (cases "url_loop net post m urls lerr tr")
  from url_loop_last_request [OF assms(1,2) r] obtain h u a where
    *: "res = call_result (classify a (net h (post u (45 + a * 15))))" by blast
  from assms(3) obtain b where "net h (post u (45 + a * 15)) = Response 429 b" by blast
  then have "res = Inl (ConnectionError ''Overpass API rate limit exceeded.'')"
    using * by (simp add: call_result_def classify_def)
  then show ?thesis using r by simp
qed

lemma query_poi_type_valid:
  "t \<in> set config_keys \<Longrightarrow>
     query_poi_type self net box t m tr
       = url_loop net (\<lambda>overpass_url timeout. Post overpass_url t box timeout) m (overpass_urls self) None tr"
  by (simp add: query_poi_type_def)

text \<open>
  Claim C7. In \<^verbatim>\<open>query_poi_type\<close>, an attempt answered by a bad request or by a body that
  does not parse is the last request to its endpoint, and the loop goes on with the next
  endpoint; an attempt answered successfully ends the call with the data, whatever
  endpoints and attempts remain; and a call that fails raises the error of the outcome of
  the last request it made, which is the rate-limit connection error when every request
  is answered by a rate limit.
\<close>

theorem query_poi_type_failover:
  "(is_permanent (net tr (post u (45 + a * 15))) \<longrightarrow>
      (\<exists>msg. try_attempts net (post u) m (a # later) lerr tr
                = (tr @ [post u (45 + a * 15)], Exhausted (Some (ValueError msg)))))
   \<and> (try_attempts net (post u) m [0..<m] lerr tr = (tr', Exhausted lerr') \<longrightarrow>
        url_loop net post m (u # us) lerr tr = url_loop net post m us lerr' tr')
   \<and> (is_success data (net tr (post u (45 + a * 15))) \<longrightarrow>
        try_attempts net (post u) m (a # later) lerr tr = (tr @ [post u (45 + a * 15)], Returned data))
   \<and> (try_attempts net (post u) m [0..<m] lerr tr = (tr', Returned data) \<longrightarrow>
        url_loop net post m (u # us) lerr tr = (tr', Inr data))
   \<and> (urls \<noteq> [] \<and> 0 < m \<and> url_loop net post m urls lerr tr = (tr', Inl err) \<longrightarrow>
        (\<exists>h u' a'. u' \<in> set urls \<and> a' < m \<and> tr' = h @ [post u' (45 + a' * 15)]
            \<and> error_of a' (net h (post u' (45 + a' * 15))) = Some err))
   \<and> (urls \<noteq> [] \<and> 0 < m \<and> (\<forall>h r. \<exists>b. net h r = Response 429 b) \<longrightarrow>
        snd (url_loop net post m urls lerr tr) = Inl (ConnectionError ''Overpass API rate limit exceeded.''))
   \<and> (t \<in> set config_keys \<longrightarrow>
        query_poi_type self net box t m tr
          = url_loop net (\<lambda>overpass_url timeout. Post overpass_url t box timeout) m (overpass_urls self) None tr)"
proof (intro conjI impI)
  assume "is_permanent (net tr (post u (45 + a * 15)))"
  then show "\<exists>msg. try_attempts net (post u) m (a # later) lerr tr
                = (tr @ [post u (45 + a * 15)], Exhausted (Some (ValueError msg)))"
    by (rule try_attempts_permanent)
next
  assume "try_attempts net (post u) m [0..<m] lerr tr = (tr', Exhausted lerr')"
  then show "url_loop net post m (u # us) lerr tr = url_loop net post m us lerr' tr'"
    by (rule url_loop_exhausted)
next
  assume "is_success data (net tr (post u (45 + a * 15)))"
  then show "try_attempts net (post u) m (a # later) lerr tr = (tr @ [post u (45 + a * 15)], Returned data)"
    by (rule try_attempts_success)
next
  assume "try_attempts net (post u) m [0..<m] lerr tr = (tr', Returned data)"
  then show "url_loop net post m (u # us) lerr tr = (tr', Inr data)"
    by (rule url_loop_returned)
next
  assume "urls \<noteq> [] \<and> 0 < m \<and> url_loop net post m urls lerr tr = (tr', Inl err)"
  then show "\<exists>h u' a'. u' \<in> set urls \<and> a' < m \<and> tr' = h @ [post u' (45 + a' * 15)]
            \<and> error_of a' (net h (post u' (45 + a' * 15))) = Some err"
    using url_loop_failure [of urls m net post lerr tr tr' err] by blast
next
  assume "urls \<noteq> [] \<and> 0 < m \<and> (\<forall>h r. \<exists>b. net h r = Response 429 b)"
  then show "snd (url_loop net post m urls lerr tr) = Inl (ConnectionError ''Overpass API rate limit exceeded.'')"
    using url_loop_rate_limited [of urls m net post lerr tr] by blast
next
  assume "t \<in> set config_keys"
  then show "query_poi_type self net box t m tr
          = url_loop net (\<lambda>overpass_url timeout. Post overpass_url t box timeout) m (overpass_urls self) None tr"
    by (rule query_poi_type_valid)
qed

lemma upt_three: "[0..<3] = [0, 1, 2]"
  by (simp add: upt_rec)

theorem query_poi_type_failover_witness:
  "query_poi_type example_client net_bad_then_ok example_box ''gas_stations'' 3 []
     = ([gas_post ''https://overpass-api.de/api/interpreter'' 45,
         gas_post ''http://overpass-api.de/api/interpreter'' 45], Inr [])
   \<and> snd (query_poi_type example_client net_rate_limited example_box ''gas_stations'' 3 [])
       = Inl (ConnectionError ''Overpass API rate limit exceeded.'')
   \<and> (\<exists>h u a. fst (query_poi_type example_client net_rate_limited example_box ''gas_stations'' 3 [])
                 = h @ [gas_post u (45 + a * 15)]
          \<and> error_of a (net_rate_limited h (gas_post u (45 + a * 15)))
               = Some (ConnectionError ''Overpass API rate limit exceeded.''))"
proof -
  let ?u1 = "''https://overpass-api.de/api/interpreter''"
  let ?u2 = "''http://overpass-api.de/api/interpreter''"
  let ?u3 = "''https://overpass.kumi.systems/api/interpreter''"
  have valid: "''gas_stations'' \<in> set config_keys"
    by (simp add: config_keys_def POI_TYPE_CONFIG_def)
  have urls: "overpass_urls example_client = [?u1, ?u2, ?u3]"
    by (simp add: example_client_def init_client_def)
  have post: "(\<lambda>overpass_url timeout. Post overpass_url ''gas_stations'' example_box timeout) = gas_post"
    by (simp add: gas_post_def)
  have q: "query_poi_type example_client net example_box ''gas_stations'' 3 []
      = url_loop net gas_post 3 [?u1, ?u2, ?u3] None []" for net
    using query_poi_type_failover [where t = "''gas_stations''" and self = example_client
        and box = example_box and net = net and m = 3 and tr = "[]"]
      valid urls post by (simp del: url_loop.simps)
  txt \<open>the bad request on the first endpoint is not retried\<close>
  have p1: "is_permanent (net_bad_then_ok [] (gas_post ?u1 (45 + 0 * 15)))"
    by (simp add: is_permanent_def net_bad_then_ok_def)
  from query_poi_type_failover [where net = net_bad_then_ok and tr = "[]" and post = gas_post
      and u = ?u1 and a = 0 and m = 3 and later = "[1, 2]" and lerr = None] p1
  obtain msg where "try_attempts net_bad_then_ok (gas_post ?u1) 3 (0 # [1, 2]) None []
      = ([] @ [gas_post ?u1 (45 + 0 * 15)], Exhausted (Some (ValueError msg)))"
    by blast
  then have a1: "try_attempts net_bad_then_ok (gas_post ?u1) 3 [0..<3] None []
      = ([gas_post ?u1 45], Exhausted (Some (ValueError msg)))"
    by (simp add: upt_three del: try_attempts.simps)
  from query_poi_type_failover [where net = net_bad_then_ok and tr = "[]" and post = gas_post
      and u = ?u1 and m = 3 and lerr = None and tr' = "[gas_post ?u1 45]"
      and lerr' = "Some (ValueError msg)" and us = "[?u2, ?u3]"] a1
  have l1: "url_loop net_bad_then_ok gas_post 3 [?u1, ?u2, ?u3] None []
      = url_loop net_bad_then_ok gas_post 3 [?u2, ?u3] (Some (ValueError msg)) [gas_post ?u1 45]"
    by blast
  txt \<open>the success on the second endpoint ends the call\<close>
  have p2: "is_success [] (net_bad_then_ok [gas_post ?u1 45] (gas_post ?u2 (45 + 0 * 15)))"
    by (simp add: is_success_def net_bad_then_ok_def)
  from query_poi_type_failover [where net = net_bad_then_ok and tr = "[gas_post ?u1 45]"
      and post = gas_post and u = ?u2 and a = 0 and m = 3 and later = "[1, 2]"
      and lerr = "Some (ValueError msg)" and data = "[]"] p2
  have "try_attempts net_bad_then_ok (gas_post ?u2) 3 (0 # [1, 2]) (Some (ValueError msg)) [gas_post ?u1 45]
      = ([gas_post ?u1 45] @ [gas_post ?u2 (45 + 0 * 15)], Returned [])"
    by blast
  then have a2: "try_attempts net_bad_then_ok (gas_post ?u2) 3 [0..<3] (Some (ValueError msg)) [gas_post ?u1 45]
      = ([gas_post ?u1 45, gas_post ?u2 45], Returned [])"
    by (simp add: upt_three del: try_attempts.simps)
  from query_poi_type_failover [where net = net_bad_then_ok and tr = "[gas_post ?u1 45]"
      and post = gas_post and u = ?u2 and m = 3 and lerr = "Some (ValueError msg)"
      and tr' = "[gas_post ?u1 45, gas_post ?u2 45]" and us = "[?u3]" and data = "[]"] a2
  have l2: "url_loop net_bad_then_ok gas_post 3 [?u2, ?u3] (Some (ValueError msg)) [gas_post ?u1 45]
      = ([gas_post ?u1 45, gas_post ?u2 45], Inr [])"
    by blast
  have first: "query_poi_type example_client net_bad_then_ok example_box ''gas_stations'' 3 []
     = ([gas_post ?u1 45, gas_post ?u2 45], Inr [])"
    using l1 l2 by (simp only: q)
  txt \<open>rate limits on every endpoint\<close>
  have limited: "\<forall>h r. \<exists>b. net_rate_limited h r = Response 429 b"
    by (simp add: net_rate_limited_def)
  from query_poi_type_failover [where net = net_rate_limited and tr = "[]" and post = gas_post
      and m = 3 and lerr = None and urls = "[?u1, ?u2, ?u3]"] limited
  have second: "snd (url_loop net_rate_limited gas_post 3 [?u1, ?u2, ?u3] None [])
      = Inl (ConnectionError ''Overpass API rate limit exceeded.'')"
    by (simp del: url_loop.simps try_attempts.simps)
  obtain tr' where r: "url_loop net_rate_limited gas_post 3 [?u1, ?u2, ?u3] None []
      = (tr', Inl (ConnectionError ''Overpass API rate limit exceeded.''))"
    using second by (cases "url_loop net_rate_limited gas_post 3 [?u1, ?u2, ?u3] None []") simp
  from query_poi_type_failover [where net = net_rate_limited and tr = "[]" and post = gas_post
      and m = 3 and lerr = None and tr' = tr' and urls = "[?u1, ?u2, ?u3]"
      and err = "ConnectionError ''Overpass API rate limit exceeded.''"] r
    list.distinct(2) [of ?u1 "[?u2, ?u3]"] zero_less_numeral [where 'a = nat and n = "num.Bit1 num.One"]
  have third: "\<exists>h u a. tr' = h @ [gas_post u (45 + a * 15)]
          \<and> error_of a (net_rate_limited h (gas_post u (45 + a * 15)))
               = Some (ConnectionError ''Overpass API rate limit exceeded.'')"
    by blast
  show ?thesis using first second third r by (simp only: q fst_conv)
qed

section \<open>All categories: validation and skipped categories\<close>

lemma category_loop_results:
  "snd (category_loop self net dsp args poi_types cats all_pois trace)
     = all_pois @ concat (map pois_of (category_results self net dsp args poi_types cats trace))"
proof (induction cats arbitrary: all_pois trace)
  case Nil
  then show ?case by simp
next
  case (Cons c cats)
  obtain index t where c: "c = (index, t)" by (cases c)
  obtain trace' r where s: "category_step self net dsp args poi_types index t trace = (trace', r)"
    by (cases "category_step self net dsp args poi_types index t trace")
  show ?case
  proof (cases r)
    case (Inl e)
    then show ?thesis using c s Cons.IH [of all_pois trace'] by simp
  next
    case (Inr pois)
    then show ?thesis using c s Cons.IH [of "all_pois @ pois" trace'] by simp
  qed
qed

lemma query_all_unknown:
  assumes "selected_poi_types args = Some sel" and "t \<in> set sel" and "t \<notin> set config_keys"
  shows "query_all_poi_types self net dsp args = ([], Inl (ValueError ''Unknown POI types''))"
proof -
  have "t \<in> set (invalid_types sel)" using assms(2,3) by (simp add: invalid_types_def)
  then have "invalid_types sel \<noteq> []" by auto
  moreover have "sel \<noteq> []" using assms(2) by auto
  ultimately show ?thesis using assms(1) by (simp add: query_all_poi_types_def)
qed

lemma query_all_valid:
  assumes "\<forall>t \<in> set (resolved_types args). t \<in> set config_keys"
  shows "snd (query_all_poi_types self net dsp args)
    = Inr (sort_key distance_on_route (concat (map pois_of
        (category_results self net dsp args (resolved_types args)
           (enumerate1 (resolved_types args)) []))))"
proof -
  let ?sel = "case selected_poi_types args of None \<Rightarrow> [] | Some ts \<Rightarrow> ts"
  have types: "(if ?sel \<noteq> [] then ?sel else config_keys) = resolved_types args"
    by (simp add: resolved_types_def split: option.splits)
  have "?sel \<noteq> [] \<Longrightarrow> invalid_types ?sel = []"
  proof -
    assume ne: "?sel \<noteq> []"
    then have "resolved_types args = ?sel" using types by simp
    then show ?thesis using assms by (simp add: invalid_types_def filter_empty_conv)
  qed
  then have "query_all_poi_types self net dsp args
      = (case category_loop self net dsp args (resolved_types args) (enumerate1 (resolved_types args)) [] [] of
          (trace, all_pois) \<Rightarrow> (trace, Inr (sort_key distance_on_route all_pois)))"
    unfolding query_all_poi_types_def Let_def using types by auto
  then show ?thesis
    using category_loop_results [of self net dsp args "resolved_types args"
        "enumerate1 (resolved_types args)" "[]" "[]"]
    by (simp add: case_prod_unfold)
qed

lemma concat_skip:
  assumes "k < length rs" and "pois_of (rs ! k) = []"
  shows "concat (map pois_of rs) = concat (map pois_of (take k rs @ drop (Suc k) rs))"
proof -
  have "rs = take k rs @ rs ! k # drop (Suc k) rs" using assms(1) by (simp add: id_take_nth_drop)
  then have "concat (map pois_of rs) = concat (map pois_of (take k rs @ rs ! k # drop (Suc k) rs))"
    by simp
  also have "\<dots> = concat (map pois_of (take k rs @ drop (Suc k) rs))" using assms(2) by simp
  finally show ?thesis .
qed

text \<open>
  Claim C5. When the selection is valid and exactly one category ends with an exception,
  \<^verbatim>\<open>query_all_poi_types\<close> still returns a list: the POIs of all the other categories, in
  the order of the categories, sorted by their distance along the route.
\<close>

theorem query_all_skips_failed_category:
  assumes "\<forall>t \<in> set (resolved_types args). t \<in> set config_keys"
    and "category_results self net dsp args (resolved_types args) (enumerate1 (resolved_types args)) [] = rs"
    and "k < length rs" and "rs ! k = Inl e"
    and "\<forall>j < length rs. j \<noteq> k \<longrightarrow> (\<exists>pois. rs ! j = Inr pois)"
  shows "\<exists>result. snd (query_all_poi_types self net dsp args) = Inr result
     \<and> result = sort_key distance_on_route (concat (map pois_of (take k rs @ drop (Suc k) rs)))
     \<and> sorted (map distance_on_route result)"
proof -
  have "pois_of (rs ! k) = []" using assms(4) by simp
  then have "concat (map pois_of rs) = concat (map pois_of (take k rs @ drop (Suc k) rs))"
    using assms(3) by (rule concat_skip [rotated])
  then show ?thesis using query_all_valid [OF assms(1), of self net dsp] assms(2) by simp
qed

text \<open>
  Claim C6. A selection that names a category outside the category table makes
  \<^verbatim>\<open>query_all_poi_types\<close> raise a \<^verbatim>\<open>ValueError\<close> with no event before it: no progress callback,
  no request, no pause and no batch.
\<close>

theorem query_all_rejects_unknown_category:
  assumes "selected_poi_types args = Some sel" and "\<exists>t \<in> set sel. t \<notin> set config_keys"
  shows "query_all_poi_types self net dsp args = ([], Inl (ValueError ''Unknown POI types''))"
  using assms query_all_unknown by blast

theorem query_all_rejects_unknown_category_witness:
  "query_all_poi_types example_client net_bakeries_down no_display castle_args
     = ([], Inl (ValueError ''Unknown POI types''))"
proof -
  have sel: "selected_poi_types castle_args = Some [''gas_stations'', ''castles'']"
    by (simp add: castle_args_def)
  have bad: "\<exists>t \<in> set [''gas_stations'', ''castles'']. t \<notin> set config_keys"
    by (simp add: config_keys_def POI_TYPE_CONFIG_def)
  show ?thesis by (rule query_all_rejects_unknown_category [OF sel bad])
qed

lemma example_types: "resolved_types example_args = [''bakeries'', ''gas_stations'']"
  by (simp add: resolved_types_def example_args_def)

lemma bakeries_step:
  "category_step example_client net_bakeries_down no_display example_args poi_types index ''bakeries'' tr
   = (tr @ [Progress ''bakeries'' index (length poi_types),
       Post ''https://overpass-api.de/api/interpreter'' ''bakeries'' example_box 45,
       Post ''http://overpass-api.de/api/interpreter'' ''bakeries'' example_box 45,
       Post ''https://overpass.kumi.systems/api/interpreter'' ''bakeries'' example_box 45],
      Inl (ValueError ''Bad request to Overpass API''))"
  by (simp add: category_step_def example_args_def query_poi_type_def config_keys_def
      POI_TYPE_CONFIG_def example_client_def init_client_def upt_three net_bakeries_down_def
      classify_def Let_def)

lemma dedup_single:
  "deduplicate_pois [p] r s = [p]"
  by (simp add: deduplicate_pois_def pois_by_type_def dedup_group_def too_close_def)

lemma gas_query:
  "query_poi_type example_client net_bakeries_down example_box ''gas_stations'' 3 tr
    = (tr @ [Post ''https://overpass-api.de/api/interpreter'' ''gas_stations'' example_box 45],
       Inr [fuel_near, fuel_far])"
  by (simp add: query_poi_type_def config_keys_def POI_TYPE_CONFIG_def example_client_def
      init_client_def upt_three net_bakeries_down_def classify_def Let_def)

lemma gas_step:
  assumes "last poi_types = ''gas_stations''"
  shows "category_step example_client net_bakeries_down no_display example_args poi_types index
       ''gas_stations'' tr
   = (tr @ [Progress ''gas_stations'' index (length poi_types),
            Post ''https://overpass-api.de/api/interpreter'' ''gas_stations'' example_box 45,
            Batch ''gas_stations'' [fuel_poi]],
      Inr [fuel_poi])"
proof -
  have r: "OverpassClient.route example_client = example_route"
    by (simp add: example_client_def init_client_def)
  show ?thesis using assms
    by (simp add: category_step_def example_args_def gas_query r max_deviation_def example_filter
        dedup_single Let_def)
qed

lemma example_results:
  "category_results example_client net_bakeries_down no_display example_args
     (resolved_types example_args) (enumerate1 (resolved_types example_args)) []
   = [Inl (ValueError ''Bad request to Overpass API''), Inr [fuel_poi]]"
proof -
  have e: "enumerate1 [''bakeries'', ''gas_stations''] = [(1, ''bakeries''), (2, ''gas_stations'')]"
    by (simp add: enumerate1_def upt_rec)
  have l: "last [''bakeries'', ''gas_stations''] = ''gas_stations''" by simp
  show ?thesis
    by (simp add: example_types e bakeries_step gas_step [OF l])
qed

theorem query_all_skips_failed_category_witness:
  "snd (query_all_poi_types example_client net_bakeries_down no_display example_args) = Inr [fuel_poi]"
proof -
  have valid: "\<forall>t \<in> set (resolved_types example_args). t \<in> set config_keys"
    by (simp add: example_types config_keys_def POI_TYPE_CONFIG_def)
  have k: "0 < length [Inl (ValueError ''Bad request to Overpass API''), Inr [fuel_poi]]"
    by simp
  have failed: "[Inl (ValueError ''Bad request to Overpass API''), Inr [fuel_poi]] ! 0
      = Inl (ValueError ''Bad request to Overpass API'')"
    by simp
  have others: "\<forall>j < length [Inl (ValueError ''Bad request to Overpass API''), Inr [fuel_poi]].
      j \<noteq> 0 \<longrightarrow> (\<exists>pois. [Inl (ValueError ''Bad request to Overpass API''), Inr [fuel_poi]] ! j = Inr pois)"
    by (simp add: less_Suc_eq)
  from query_all_skips_failed_category [OF valid example_results k failed others]
  show ?thesis by auto
qed

end
